theory Spec2Isabelle
  imports Complex_Main
begin

section \<open>Text primitives of the host language\<close>

text \<open>
  The server handles text as Python \<open>str\<close>. A string is modelled as a list of
  characters, and a character is a code point from 0 to 255: the type has no others. On
  these code points the classes and functions below are what Python's \<open>\s\<close>, \<open>\d\<close>,
  \<open>\w\<close>, \<open>str.isspace\<close> (which \<open>str.strip\<close> uses) and \<open>str.lower\<close> are.
\<close>

definition is_space :: "char \<Rightarrow> bool" where
  "is_space c = (c \<in> set [CHR 0x09, CHR 0x0A, CHR 0x0B, CHR 0x0C, CHR 0x0D,
                           CHR 0x1C, CHR 0x1D, CHR 0x1E, CHR 0x1F, CHR 0x20,
                           CHR 0x85, CHR 0xA0])"

definition code_point :: "char \<Rightarrow> nat" where
  "code_point c = of_char c"

definition is_digit :: "char \<Rightarrow> bool" where
  "is_digit c = (c \<in> set ''0123456789'')"

definition is_upper :: "char \<Rightarrow> bool" where
  "is_upper c = (c \<in> set ''ABCDEFGHIJKLMNOPQRSTUVWXYZ'')"

definition is_lower :: "char \<Rightarrow> bool" where
  "is_lower c = (c \<in> set ''abcdefghijklmnopqrstuvwxyz'')"

definition is_alpha :: "char \<Rightarrow> bool" where
  "is_alpha c = (is_upper c \<or> is_lower c)"

text \<open>
  \<open>\w\<close>: the letters and digits of ASCII, the underscore, and the code points from 128
  to 255 that \<open>str.isalnum\<close> accepts.
\<close>

definition is_word :: "char \<Rightarrow> bool" where
  "is_word c =
     (is_alpha c \<or> is_digit c \<or> c = CHR ''_'' \<or>
      c \<in> set [CHR 0xAA, CHR 0xB2, CHR 0xB3, CHR 0xB5, CHR 0xB9, CHR 0xBA,
                 CHR 0xBC, CHR 0xBD, CHR 0xBE] \<or>
      (0xC0 \<le> code_point c \<and> code_point c \<le> 0xD6) \<or>
      (0xD8 \<le> code_point c \<and> code_point c \<le> 0xF6) \<or>
      0xF8 \<le> code_point c)"

text \<open>
  \<open>str.lower\<close> on one character: the capital letters of ASCII, and the capital letters
  from 0xC0 to 0xDE other than the multiplication sign 0xD7, move up by 32.
\<close>

definition lower_char :: "char \<Rightarrow> char" where
  "lower_char c =
     (case map_of (zip ''ABCDEFGHIJKLMNOPQRSTUVWXYZ'' ''abcdefghijklmnopqrstuvwxyz'') c of
        Some l \<Rightarrow> l
      | None \<Rightarrow>
          if (0xC0 \<le> code_point c \<and> code_point c \<le> 0xD6) \<or>
             (0xD8 \<le> code_point c \<and> code_point c \<le> 0xDE)
          then char_of (code_point c + 32)
          else c)"

definition py_lower :: "string \<Rightarrow> string" where
  "py_lower s = map lower_char s"

definition py_strip :: "string \<Rightarrow> string" where
  "py_strip s = rev (dropWhile is_space (rev (dropWhile is_space s)))"

definition digit_value :: "char \<Rightarrow> int" where
  "digit_value c = int (length (takeWhile (\<lambda>d. d \<noteq> c) ''0123456789''))"

definition py_int :: "string \<Rightarrow> int" where
  "py_int ds = foldl (\<lambda>acc c. 10 * acc + digit_value c) 0 ds"

fun py_join :: "string \<Rightarrow> string list \<Rightarrow> string" where
  "py_join sep [] = []"
| "py_join sep [x] = x"
| "py_join sep (x # y # ys) = x @ sep @ py_join sep (y # ys)"

definition py_bool_str :: "bool \<Rightarrow> string" where
  "py_bool_str b = (if b then ''True'' else ''False'')"

text \<open>
  \<open>re.search\<close>: the match attempt \<open>m\<close> is tried at every position of the text from the
  left, the end of the text included, and the first success is returned.
\<close>

fun re_search :: "(string \<Rightarrow> 'a option) \<Rightarrow> string \<Rightarrow> 'a option" where
  "re_search m [] = m []"
| "re_search m (c # cs) = (case m (c # cs) of Some g \<Rightarrow> Some g | None \<Rightarrow> re_search m cs)"

section \<open>Parsing the scorer's answer\<close>

text \<open>
  \<open>Score:\s*(\d{1,3})\<close> with \<open>re.IGNORECASE\<close>, attempted at the head of \<open>s\<close>; the
  result is group 1. Among the code points up to 255 a letter of the pattern matches its
  capital and its small form only, which is to say that the text in lower case equals the
  pattern in lower case. White space and digits are disjoint, so the greedy run of white
  space leaves no second way to match.
\<close>

definition score_match_at :: "string \<Rightarrow> string option" where
  "score_match_at s =
     (if py_lower (take 6 s) = ''score:'' then
        (let ds = take 3 (takeWhile is_digit (dropWhile is_space (drop 6 s)))
         in if ds = [] then None else Some ds)
      else None)"

text \<open>
  \<open>Explanation:\s*(.*)\<close> with \<open>re.IGNORECASE | re.DOTALL\<close>: group 1 is everything
  after the white space, up to the end of the text.
\<close>

definition explanation_match_at :: "string \<Rightarrow> string option" where
  "explanation_match_at s =
     (if py_lower (take 12 s) = ''explanation:'' then Some (dropWhile is_space (drop 12 s))
      else None)"

definition default_explanation :: string where
  "default_explanation = ''Score could not be determined from documents.''"

text \<open>Lines 631 to 640 of \<open>verify_financial_documents\<close>: the score and its explanation.\<close>

definition parse_financial_score :: "string \<Rightarrow> int \<times> string" where
  "parse_financial_score text_response =
     (case re_search score_match_at text_response of
        None \<Rightarrow> (5, default_explanation)
      | Some g \<Rightarrow>
          (min 100 (max 0 (py_int g)),
           (case re_search explanation_match_at text_response of
              None \<Rightarrow> default_explanation
            | Some e \<Rightarrow> py_strip e)))"

section \<open>Requests, responses and the document store\<close>

text \<open>
  A Python \<open>float\<close>: a finite double, given by its value, an infinity or NaN.
\<close>

datatype pyfloat = Finite real | PosInf | NegInf | NaN

text \<open>\<open>x <= 0\<close> on floats: false for NaN.\<close>

definition float_le_zero :: "pyfloat \<Rightarrow> bool" where
  "float_le_zero x =
     (case x of Finite r \<Rightarrow> r \<le> 0 | PosInf \<Rightarrow> False | NegInf \<Rightarrow> True | NaN \<Rightarrow> False)"

text \<open>
  JSON values as \<open>request.get_json()\<close> returns them and as the handlers return them.
  An object keeps its members in the order of the text.
\<close>

datatype jvalue =
    JNull
  | JBool bool
  | JInt int
  | JNum pyfloat
  | JStr string
  | JList "jvalue list"
  | JObj "(string \<times> jvalue) list"

text \<open>What \<open>jsonify(...), code\<close> returns: the status code and the JSON object.\<close>

record response =
  code :: nat
  body :: "(string \<times> jvalue) list"

definition error_response :: "nat \<Rightarrow> string \<Rightarrow> response" where
  "error_response c msg = \<lparr>code = c, body = [(''error'', JStr msg)]\<rparr>"

text \<open>
  An external collaborator (the vision model, the scorer) either raises, with the text of
  its exception, or returns a reply whose \<open>text\<close> attribute may be missing.
\<close>

datatype upstream = Unavailable string | Replied "string option"

record uploaded_file =
  mimetype :: string
  filename :: string
  vision :: upstream

text \<open>
  \<open>filename\<close> is the name after \<open>secure_filename\<close>; \<open>vision\<close> is the answer of the
  vision model to the handler's prompt on this file.
\<close>

record history_entry =
  score :: int
  reason :: string
  date :: string

text \<open>
  The \<open>trust_score\<close> map of a user document. A field the document does not have is
  \<open>None\<close> (for the histories, the empty list).
\<close>

record trust_score =
  identity_score :: "jvalue option"
  identity_verified_at :: "int option"
  identity_history :: "history_entry list"
  financial_score :: "jvalue option"
  financial_verified_at :: "int option"
  financial_history :: "history_entry list"

text \<open>A user document; its fields other than \<open>trust_score\<close> are not modelled.\<close>

record user_doc =
  trust :: trust_score

record loan =
  amount :: pyfloat
  purpose :: jvalue
  timestamp :: int
  due_date :: int
  status :: string
  wallet :: jvalue
  documents_released :: bool

record gov_record =
  verified :: bool
  name :: string
  phone :: string

text \<open>
  The Firestore database: the \<open>users\<close> collection, the \<open>loans\<close> subcollections keyed
  by user and loan identifier, and the \<open>gov_records\<close> collection keyed by PAN.
\<close>

record db =
  users :: "string \<rightharpoonup> user_doc"
  loans :: "string \<times> string \<rightharpoonup> loan"
  gov_records :: "string \<rightharpoonup> gov_record"

text \<open>
  What a request takes from its surroundings: the clock (\<open>datetime.now(timezone.utc)\<close> in
  seconds, and its \<open>isoformat()\<close>), the time the store puts in place of
  \<open>SERVER_TIMESTAMP\<close>, the identifier the store generates for \<open>add\<close>, and the
  exception that the store's client raises during this request, when it raises one: the
  store cannot be reached, or refuses the path or the data (\<open>None\<close> when its calls
  succeed).
\<close>

record env =
  now :: int
  now_iso :: string
  server_timestamp :: int
  auto_id :: string
  store_error :: "string option"

definition empty_trust :: trust_score where
  "empty_trust = \<lparr>identity_score = None, identity_verified_at = None, identity_history = [],
                  financial_score = None, financial_verified_at = None,
                  financial_history = []\<rparr>"

definition empty_user :: user_doc where
  "empty_user = \<lparr>trust = empty_trust\<rparr>"

text \<open>
  \<open>document(uid).set({'trust_score': {...}}, merge=True)\<close>: the document is created when
  absent, and only the trust-score fields that \<open>f\<close> sets change.
\<close>

definition merge_trust :: "db \<Rightarrow> string \<Rightarrow> (trust_score \<Rightarrow> trust_score) \<Rightarrow> db" where
  "merge_trust d uid f =
     (let u = (case users d uid of None \<Rightarrow> empty_user | Some u \<Rightarrow> u)
      in d\<lparr>users := (users d)(uid \<mapsto> u\<lparr>trust := f (trust u)\<rparr>)\<rparr>)"

section \<open>Document extraction shared by the two scoring handlers\<close>

definition allowed_types :: "string list" where
  "allowed_types = [''image/jpeg'', ''image/png'', ''application/pdf'']"

definition extracted_text :: "string option \<Rightarrow> string" where
  "extracted_text t =
     (case t of
        None \<Rightarrow> ''No text extracted''
      | Some s \<Rightarrow> if s = [] then ''No text extracted'' else py_strip s)"

text \<open>
  The loop over the uploaded files: a file of another type is skipped, the vision model is
  asked about each of the others in turn, and an exception of the model (\<open>Inl\<close>) ends the
  loop. The result pairs each file name with its extracted text.
\<close>

fun extract_documents :: "uploaded_file list \<Rightarrow> string + (string \<times> string) list" where
  "extract_documents [] = Inr []"
| "extract_documents (f # fs) =
     (if mimetype f \<notin> set allowed_types then extract_documents fs
      else (case vision f of
              Unavailable e \<Rightarrow> Inl e
            | Replied t \<Rightarrow>
                (case extract_documents fs of
                   Inl e \<Rightarrow> Inl e
                 | Inr rs \<Rightarrow> Inr ((filename f, extracted_text t) # rs))))"

definition results_json :: "(string \<times> string) list \<Rightarrow> jvalue" where
  "results_json rs =
     JList (map (\<lambda>(fn, t). JObj [(''filename'', JStr fn), (''extracted_text'', JStr t)]) rs)"

definition combined_text :: "(string \<times> string) list \<Rightarrow> string" where
  "combined_text rs = py_join [CHR 0x0A, CHR 0x0A] (map snd rs)"

section \<open>The financial scoring handler\<close>

record financial_request =
  fin_uid :: "string option"
  fin_documents :: "uploaded_file list"

text \<open>
  \<open>verify_financial_documents\<close>. The scorer is the second call of the language model; its
  prompt is a fixed template around the combined text, so it is a function of that text.
\<close>

definition financial_failure :: "string \<Rightarrow> response" where
  "financial_failure ex =
     \<lparr>code = 500, body = [(''error'', JStr ''Failed to process financial documents''),
                          (''details'', JStr ex)]\<rparr>"

definition verify_financial_documents ::
  "(string \<Rightarrow> upstream) \<Rightarrow> env \<Rightarrow> db \<Rightarrow> financial_request \<Rightarrow> response \<times> db" where
  "verify_financial_documents scorer e d req =
     (case fin_uid req of
        None \<Rightarrow> (error_response 400 ''User ID required'', d)
      | Some uid \<Rightarrow>
        if uid = [] then (error_response 400 ''User ID required'', d)
        else if fin_documents req = [] then (error_response 400 ''No file uploaded'', d)
        else (case extract_documents (fin_documents req) of
          Inl ex \<Rightarrow> (financial_failure ex, d)
        | Inr rs \<Rightarrow>
          if rs = [] then (error_response 400 ''No valid documents processed'', d)
          else (case scorer (combined_text rs) of
            Unavailable ex \<Rightarrow> (financial_failure ex, d)
          | Replied t \<Rightarrow>
            (let text_response = (case t of None \<Rightarrow> [] | Some s \<Rightarrow> s);
                 (financial, explanation) = parse_financial_score text_response;
                 history = \<lparr>score = financial, reason = explanation, date = now_iso e\<rparr>
             in (case store_error e of
                   Some ex \<Rightarrow> (financial_failure ex, d)
                 | None \<Rightarrow>
                     (\<lparr>code = 200,
                       body = [(''trust_score'', JInt financial),
                               (''results'', results_json rs),
                               (''message'', JStr ''Financial documents evaluated successfully.''),
                               (''explanation'', JStr explanation)]\<rparr>,
                      merge_trust d uid (\<lambda>t. t\<lparr>financial_score := Some (JInt financial),
                        financial_verified_at := Some (server_timestamp e),
                        financial_history := [history]\<rparr>)))))))"

section \<open>Reading the identity fields out of the extracted text\<close>

text \<open>Python's truth value of an optional string: \<open>None\<close> and \<open>""\<close> are false.\<close>

definition truthy :: "string option \<Rightarrow> bool" where
  "truthy x = (case x of None \<Rightarrow> False | Some s \<Rightarrow> s \<noteq> [])"

text \<open>\<open>[A-Z]{5}[0-9]{4}[A-Z]{1}\<close> at the head of \<open>s\<close>; the result is group 0.\<close>

definition pan_match_at :: "string \<Rightarrow> string option" where
  "pan_match_at s =
     (let m = take 10 s
      in if length m = 10 \<and> list_all is_upper (take 5 m) \<and>
            list_all is_digit (take 4 (drop 5 m)) \<and> list_all is_upper (drop 9 m)
         then Some m else None)"

text \<open>
  Lines 429 and 430: the search runs on the text without its blanks. The match is ten
  capital letters and digits of ASCII, which \<open>.strip().upper()\<close> leaves as they are.
\<close>

definition pan_number_of :: "string \<Rightarrow> string option" where
  "pan_number_of combined_history =
     re_search pan_match_at (filter (\<lambda>c. c \<noteq> CHR 0x20) combined_history)"

text \<open>
  \<open>\b\<close> between the character before the position (\<open>None\<close> at the start of the text)
  and the rest of the text: exactly one side is a word character.
\<close>

definition word_boundary :: "char option \<Rightarrow> string \<Rightarrow> bool" where
  "word_boundary prev s =
     ((case prev of None \<Rightarrow> False | Some p \<Rightarrow> is_word p) \<noteq>
      (case s of [] \<Rightarrow> False | c # _ \<Rightarrow> is_word c))"

definition digits4 :: "string \<Rightarrow> (string \<times> string) option" where
  "digits4 s =
     (if length (take 4 s) = 4 \<and> list_all is_digit (take 4 s) then Some (take 4 s, drop 4 s)
      else None)"

definition opt_space :: "string \<Rightarrow> string \<times> string" where
  "opt_space s = (case s of [] \<Rightarrow> ([], []) | c # cs \<Rightarrow> if is_space c then ([c], cs) else ([], s))"

text \<open>
  \<open>\b\d{4}\s?\d{4}\s?\d{4}\b\<close> at the head of \<open>s\<close>, after the character \<open>prev\<close>; the
  result is group 0. Giving up an optional white space leaves that white space where a
  digit is required, so the greedy choice is the only one.
\<close>

definition aadhaar_match_at :: "char option \<Rightarrow> string \<Rightarrow> string option" where
  "aadhaar_match_at prev s =
     (if \<not> word_boundary prev s then None
      else (case digits4 s of
        None \<Rightarrow> None
      | Some (g1, r1) \<Rightarrow>
        (let (w1, r1') = opt_space r1
         in (case digits4 r1' of
           None \<Rightarrow> None
         | Some (g2, r2) \<Rightarrow>
           (let (w2, r2') = opt_space r2
            in (case digits4 r2' of
              None \<Rightarrow> None
            | Some (g3, r3) \<Rightarrow>
                if word_boundary (Some (last g3)) r3 then Some (g1 @ w1 @ g2 @ w2 @ g3)
                else None))))))"

fun aadhaar_search :: "char option \<Rightarrow> string \<Rightarrow> string option" where
  "aadhaar_search prev [] = aadhaar_match_at prev []"
| "aadhaar_search prev (c # cs) =
     (case aadhaar_match_at prev (c # cs) of
        Some g \<Rightarrow> Some g
      | None \<Rightarrow> aadhaar_search (Some c) cs)"

text \<open>Lines 432 and 433.\<close>

definition aadhaar_number_of :: "string \<Rightarrow> string option" where
  "aadhaar_number_of combined_history =
     map_option (filter (\<lambda>c. c \<noteq> CHR 0x20)) (aadhaar_search None combined_history)"

definition skip_separator :: "string \<Rightarrow> string" where
  "skip_separator s =
     (case s of [] \<Rightarrow> [] | c # cs \<Rightarrow> if c = CHR '':'' \<or> c = CHR ''-'' then cs else s)"

text \<open>
  \<open>Name\s*[:\-]?\s*([A-Za-z\s]+)\<close> with \<open>re.IGNORECASE\<close> at the head of \<open>s\<close>; the
  result is group 1. Among the code points up to 255 the class \<open>[A-Za-z]\<close> matches
  the letters of ASCII only, with or without \<open>re.IGNORECASE\<close>. When a letter follows
  the separator and the white space, the group is the longest run of letters and white
  space from there. Otherwise the match can only succeed by backtracking: the second run of
  white space, or else the first, gives its last character to the group, which then is
  that one white-space character.
\<close>

definition name_match_at :: "string \<Rightarrow> string option" where
  "name_match_at s =
     (if py_lower (take 4 s) = ''name'' then
        (let r = drop 4 s;
             ws1 = takeWhile is_space r;
             r2 = skip_separator (dropWhile is_space r);
             ws2 = takeWhile is_space r2;
             r3 = dropWhile is_space r2
         in (case r3 of
               c # _ \<Rightarrow>
                 if is_alpha c then Some (takeWhile (\<lambda>x. is_alpha x \<or> is_space x) r3)
                 else if ws2 \<noteq> [] then Some [last ws2]
                 else if ws1 \<noteq> [] then Some [last ws1]
                 else None
             | [] \<Rightarrow>
                 if ws2 \<noteq> [] then Some [last ws2]
                 else if ws1 \<noteq> [] then Some [last ws1]
                 else None))
      else None)"

text \<open>Lines 435 and 436.\<close>

definition name_extracted_of :: "string \<Rightarrow> string option" where
  "name_extracted_of combined_history =
     map_option py_strip (re_search name_match_at combined_history)"

text \<open>\<open>Phone\s*[:\-]?\s*(\d{10})\<close>, case-sensitive, at the head of \<open>s\<close>; group 1.\<close>

definition phone_match_at :: "string \<Rightarrow> string option" where
  "phone_match_at s =
     (if take 5 s = ''Phone'' then
        (let g = take 10 (dropWhile is_space (skip_separator (dropWhile is_space (drop 5 s))))
         in if length g = 10 \<and> list_all is_digit g then Some g else None)
      else None)"

text \<open>Lines 438 and 439.\<close>

definition phone_extracted_of :: "string \<Rightarrow> string option" where
  "phone_extracted_of combined_history = re_search phone_match_at combined_history"

section \<open>The identity scoring handler\<close>

definition bypass_pan :: string where
  "bypass_pan = ''EMPPG7988Q''"

text \<open>
  Lines 445 to 470: the PAN check. \<open>Inl\<close> is the rejection the handler returns; \<open>Inr\<close>
  is the verification message, and \<open>pan_verified\<close> is then true.
\<close>

definition check_pan :: "db \<Rightarrow> string \<Rightarrow> string \<Rightarrow> string \<Rightarrow> response + string" where
  "check_pan d pan_number name_extracted phone_input =
     (if pan_number = bypass_pan then Inr ''PAN bypass code detected.''
      else (case gov_records d pan_number of
        None \<Rightarrow>
          Inl \<lparr>code = 403, body = [(''error'', JStr ''PAN not found in government records''),
                                   (''pan'', JStr pan_number)]\<rparr>
      | Some gov_data \<Rightarrow>
          if \<not> verified gov_data then
            Inl (error_response 403 ''Government record not verified'')
          else if py_lower name_extracted \<noteq> py_lower (name gov_data) \<or>
                  phone_input \<noteq> phone gov_data then
            Inl \<lparr>code = 403,
                 body = [(''error'', JStr ''Details do not match government records''),
                         (''expected_name'', JStr (name gov_data)),
                         (''provided_name'', JStr name_extracted),
                         (''expected_phone'', JStr (phone gov_data)),
                         (''provided_phone'', JStr phone_input)]\<rparr>
          else Inr ''PAN and user details matched government records.''))"

text \<open>Lines 476 to 500: the four point buckets and the cap.\<close>

definition identity_trust_score ::
  "bool \<Rightarrow> bool \<Rightarrow> string option \<Rightarrow> string \<Rightarrow> string option \<Rightarrow> int" where
  "identity_trust_score pan_verified aadhaar_verified phone_extracted phone_input name_extracted =
     (let s0 = 0;
          s1 = (if pan_verified then s0 + 40 else s0);
          s2 = (if aadhaar_verified then s1 + 30 else s1);
          s3 = (if truthy phone_extracted \<and> phone_extracted = Some phone_input then s2 + 20
                else s2);
          s4 = (if truthy name_extracted then s3 + 10 else s3)
      in min s4 100)"

definition json_opt :: "string option \<Rightarrow> jvalue" where
  "json_opt x = (case x of None \<Rightarrow> JNull | Some s \<Rightarrow> JStr s)"

definition identity_failure :: "string \<Rightarrow> response" where
  "identity_failure ex =
     \<lparr>code = 500, body = [(''error'', JStr ''Failed to process identity documents''),
                          (''details'', JStr ex)]\<rparr>"

record identity_request =
  id_uid :: "string option"
  id_phone :: "string option"
  id_documents :: "uploaded_file list"

text \<open>
  Lines 441 to 532 of \<open>verify_identity_documents\<close>: what the handler does with the four
  extracted fields. The store is read only in \<open>check_pan\<close>, and not for the bypass PAN.
\<close>

definition identity_verdict ::
  "env \<Rightarrow> db \<Rightarrow> string \<Rightarrow> string \<Rightarrow> (string \<times> string) list \<Rightarrow>
   string option \<Rightarrow> string option \<Rightarrow> string option \<Rightarrow> string option \<Rightarrow> response \<times> db" where
  "identity_verdict e d uid phone_input rs pan_number aadhaar_number name_extracted
     phone_extracted =
     (if \<not> truthy pan_number \<or> \<not> truthy name_extracted then
        (error_response 403 ''PAN or Name not verified in documents'', d)
      else
        (let pan = (case pan_number of None \<Rightarrow> [] | Some p \<Rightarrow> p);
             nm = (case name_extracted of None \<Rightarrow> [] | Some n \<Rightarrow> n)
         in if pan \<noteq> bypass_pan \<and> store_error e \<noteq> None then
              (identity_failure (case store_error e of None \<Rightarrow> [] | Some ex \<Rightarrow> ex), d)
            else (case check_pan d pan nm phone_input of
              Inl rejection \<Rightarrow> (rejection, d)
            | Inr pan_verification_message \<Rightarrow>
              (let pan_verified = True;
                   aadhaar_verified = truthy aadhaar_number;
                   identity = identity_trust_score pan_verified aadhaar_verified
                                phone_extracted phone_input name_extracted;
                   history = \<lparr>score = identity,
                     reason = ''Identity verification completed. PAN Verified: '' @
                              py_bool_str pan_verified @ '', Aadhaar Present: '' @
                              py_bool_str aadhaar_verified,
                     date = now_iso e\<rparr>
               in (case store_error e of
                     Some ex \<Rightarrow> (identity_failure ex, d)
                   | None \<Rightarrow>
                       (\<lparr>code = 200,
                         body = [(''trust_score'', JInt identity),
                                 (''aadhaar_verified'', JBool aadhaar_verified),
                                 (''aadhaar_number'', json_opt aadhaar_number),
                                 (''pan_verified'', JBool pan_verified),
                                 (''pan_number'', json_opt pan_number),
                                 (''phone_provided'', JStr phone_input),
                                 (''phone_extracted'', json_opt phone_extracted),
                                 (''name_extracted'', json_opt name_extracted),
                                 (''results'', results_json rs),
                                 (''message'',
                                  JStr ''Identity verification completed successfully.'')]\<rparr>,
                        merge_trust d uid (\<lambda>t. t\<lparr>identity_score := Some (JInt identity),
                          identity_verified_at := Some (server_timestamp e),
                          identity_history := [history]\<rparr>)))))))"

text \<open>\<open>verify_identity_documents\<close>, lines 370 to 536.\<close>

definition verify_identity_documents :: "env \<Rightarrow> db \<Rightarrow> identity_request \<Rightarrow> response \<times> db" where
  "verify_identity_documents e d req =
     (if \<not> truthy (id_uid req) then (error_response 400 ''User ID required'', d)
      else if \<not> truthy (id_phone req) then (error_response 400 ''Phone number required'', d)
      else if id_documents req = [] then (error_response 400 ''No file uploaded'', d)
      else (case extract_documents (id_documents req) of
        Inl ex \<Rightarrow> (identity_failure ex, d)
      | Inr rs \<Rightarrow>
          if rs = [] then (error_response 400 ''No valid documents processed'', d)
          else
            (let uid = (case id_uid req of None \<Rightarrow> [] | Some u \<Rightarrow> u);
                 phone_input = (case id_phone req of None \<Rightarrow> [] | Some p \<Rightarrow> p);
                 combined_history = combined_text rs
             in identity_verdict e d uid phone_input rs
                  (pan_number_of combined_history) (aadhaar_number_of combined_history)
                  (name_extracted_of combined_history) (phone_extracted_of combined_history))))"

section \<open>The profile handler\<close>

text \<open>
  \<open>user_profile\<close> with method POST writes the request's JSON into the user document with
  \<open>set(data, merge=True)\<close>. Of the JSON only the two score fields of a \<open>trust_score\<close>
  object are modelled: \<open>upd_identity_score\<close> and \<open>upd_financial_score\<close> are the values
  the request gives for \<open>trust_score.identity_score\<close> and \<open>trust_score.financial_score\<close>,
  when it gives any.
\<close>

record profile_data =
  upd_identity_score :: "jvalue option"
  upd_financial_score :: "jvalue option"

definition user_profile_post :: "db \<Rightarrow> string \<Rightarrow> profile_data \<Rightarrow> response \<times> db" where
  "user_profile_post d uid data =
     (\<lparr>code = 200, body = [(''status'', JStr ''profile updated'')]\<rparr>,
      merge_trust d uid (\<lambda>t. t\<lparr>
        identity_score := (case upd_identity_score data of
                             None \<Rightarrow> identity_score t | Some v \<Rightarrow> Some v),
        financial_score := (case upd_financial_score data of
                              None \<Rightarrow> financial_score t | Some v \<Rightarrow> Some v)\<rparr>))"

section \<open>Loan requests and decisions\<close>

text \<open>
  What \<open>float(x)\<close> does: it returns a float, or raises the \<open>ValueError\<close> or
  \<open>TypeError\<close> that the handler catches, or raises \<open>OverflowError\<close>.
\<close>

datatype float_result = FloatValue pyfloat | FloatError | FloatOverflow

text \<open>
  \<open>float(x)\<close> on a JSON value. \<open>None\<close>, a list and an object raise \<open>TypeError\<close>; a
  boolean gives 1.0 or 0.0; a JSON float is returned as it is; an integer of absolute value
  up to \<open>2 ^ 53\<close> is converted exactly. A larger integer is rounded or raises
  \<open>OverflowError\<close>, and a string is parsed or raises \<open>ValueError\<close>: for these the result
  is the host language's, given by the parameter \<open>host_float\<close>.
\<close>

definition py_float :: "(jvalue \<Rightarrow> float_result) \<Rightarrow> jvalue \<Rightarrow> float_result" where
  "py_float host_float v =
     (case v of
        JNull \<Rightarrow> FloatError
      | JBool b \<Rightarrow> FloatValue (Finite (if b then 1 else 0))
      | JInt n \<Rightarrow> if \<bar>n\<bar> \<le> 2 ^ 53 then FloatValue (Finite (real_of_int n)) else host_float v
      | JNum x \<Rightarrow> FloatValue x
      | JStr t \<Rightarrow> host_float v
      | JList _ \<Rightarrow> FloatError
      | JObj _ \<Rightarrow> FloatError)"

definition required_fields :: "string list" where
  "required_fields = [''uid'', ''amount'', ''purpose'', ''wallet'']"

text \<open>\<open>data.get(k)\<close> on a dictionary.\<close>

definition dict_get :: "(string \<rightharpoonup> jvalue) \<Rightarrow> string \<Rightarrow> jvalue" where
  "dict_get data k = (case data k of None \<Rightarrow> JNull | Some v \<Rightarrow> v)"

text \<open>
  The dictionary that \<open>get_json\<close> makes of a JSON object: of two members with the same
  name the later one stays.
\<close>

definition dict_of :: "(string \<times> jvalue) list \<Rightarrow> (string \<rightharpoonup> jvalue)" where
  "dict_of members = map_of (rev members)"

text \<open>\<open>sub in s\<close> on strings: \<open>sub\<close> stands somewhere in \<open>s\<close>.\<close>

definition contains_text :: "string \<Rightarrow> string \<Rightarrow> bool" where
  "contains_text sub s =
     (re_search (\<lambda>t. if take (length sub) t = sub then Some () else None) s \<noteq> None)"

text \<open>
  An exception that no \<open>except\<close> clause of the handler catches: Flask answers 500 with
  its own error page, which is not JSON.
\<close>

definition internal_server_error :: response where
  "internal_server_error = \<lparr>code = 500, body = []\<rparr>"

text \<open>
  \<open>loan_request\<close>, for a request with a JSON body. \<open>field in data\<close> looks for a key of
  an object, an element of a list and a part of a string, and raises \<open>TypeError\<close> on any
  other value, outside every \<open>try\<close>; a list or string that has all four fields then has
  no \<open>get\<close>, and the \<open>AttributeError\<close> is not caught either. The new loan is stored
  under the identifier the store generates. The model covers a \<open>uid\<close> that is a JSON
  string; with any other \<open>uid\<close> the outcome is up to the store's client, and the model
  takes the handler's database-error branch.
\<close>

definition loan_request ::
  "(jvalue \<Rightarrow> float_result) \<Rightarrow> env \<Rightarrow> db \<Rightarrow> jvalue \<Rightarrow> response \<times> db" where
  "loan_request host_float e d data =
     (case data of
        JObj members \<Rightarrow>
          (let fields = dict_of members
           in if \<not> (\<forall>field \<in> set required_fields. fields field \<noteq> None) then
                (error_response 400 ''Missing required fields'', d)
              else (case py_float host_float (dict_get fields ''amount'') of
                FloatError \<Rightarrow> (error_response 400 ''Invalid amount'', d)
              | FloatOverflow \<Rightarrow> (internal_server_error, d)
              | FloatValue amt \<Rightarrow>
                  if float_le_zero amt then (error_response 400 ''Amount must be positive'', d)
                  else
                    (let loan_data = \<lparr>amount = amt, purpose = dict_get fields ''purpose'',
                           timestamp = server_timestamp e, due_date = now e + 30 * 86400,
                           status = ''pending'', wallet = dict_get fields ''wallet'',
                           documents_released = False\<rparr>
                     in (case (dict_get fields ''uid'', store_error e) of
                           (JStr uid, None) \<Rightarrow>
                             (\<lparr>code = 200,
                               body = [(''status'', JStr ''loan request submitted'')]\<rparr>,
                              d\<lparr>loans := (loans d)((uid, auto_id e) \<mapsto> loan_data)\<rparr>)
                         | (_, Some ex) \<Rightarrow>
                             (error_response 500 (''Database error: '' @ ex), d)
                         | (_, None) \<Rightarrow> (error_response 500 ''Database error: '', d)))))
      | JList elements \<Rightarrow>
          if \<not> (\<forall>field \<in> set required_fields. JStr field \<in> set elements) then
            (error_response 400 ''Missing required fields'', d)
          else (internal_server_error, d)
      | JStr s \<Rightarrow>
          if \<not> (\<forall>field \<in> set required_fields. contains_text field s) then
            (error_response 400 ''Missing required fields'', d)
          else (internal_server_error, d)
      | _ \<Rightarrow> (internal_server_error, d))"

definition decision_invalid :: response where
  "decision_invalid =
     error_response 400 (''Decision must be either 'approved' or 'rejected'' @ [CHR 0x27])"

definition decision_failure :: "string \<Rightarrow> response" where
  "decision_failure ex =
     \<lparr>code = 500, body = [(''error'', JStr ''Failed to update loan decision''),
                          (''details'', JStr ex)]\<rparr>"

text \<open>\<open>loan_decision\<close>, lines 240 to 264.\<close>

definition loan_decision ::
  "env \<Rightarrow> db \<Rightarrow> string \<Rightarrow> string \<Rightarrow> (string \<rightharpoonup> jvalue) \<Rightarrow> response \<times> db" where
  "loan_decision e d uid loan_id data =
     (case dict_get data ''decision'' of
        JStr decision \<Rightarrow>
          if decision \<notin> set [''approved'', ''rejected''] then
            (decision_invalid, d)
          else (case store_error e of
            Some ex \<Rightarrow> (decision_failure ex, d)
          | None \<Rightarrow>
            (case loans d (uid, loan_id) of
               None \<Rightarrow> (error_response 404 ''Loan not found'', d)
             | Some l \<Rightarrow>
                 (\<lparr>code = 200,
                   body = [(''message'',
                            JStr (''Loan '' @ loan_id @ '' has been '' @ decision))]\<rparr>,
                  d\<lparr>loans := (loans d)((uid, loan_id) \<mapsto> l\<lparr>status := decision\<rparr>)\<rparr>)))
      | _ \<Rightarrow> (decision_invalid, d))"

text \<open>
  A sequence of decision calls, each with its own surroundings and on the store the one
  before left.
\<close>

fun decide_all :: "db \<Rightarrow> (env \<times> string \<times> string \<times> (string \<rightharpoonup> jvalue)) list \<Rightarrow> db" where
  "decide_all d [] = d"
| "decide_all d ((e, uid, loan_id, data) # calls) =
     decide_all (snd (loan_decision e d uid loan_id data)) calls"

section \<open>The loan utilities\<close>

text \<open>
  Calendar dates are day numbers, counted as Python's \<open>date.toordinal\<close> counts them
  (day 1 is 0001-01-01); \<open>ymd2ord\<close> gives the number of a year, month and day.
\<close>

definition is_leap :: "int \<Rightarrow> bool" where
  "is_leap y = (y mod 4 = 0 \<and> (y mod 100 \<noteq> 0 \<or> y mod 400 = 0))"

definition days_before_year :: "int \<Rightarrow> int" where
  "days_before_year y = (let p = y - 1 in p * 365 + p div 4 - p div 100 + p div 400)"

definition days_in_month :: "int \<Rightarrow> nat \<Rightarrow> int" where
  "days_in_month y m =
     (if m = 2 then (if is_leap y then 29 else 28)
      else if m \<in> set [4, 6, 9, 11] then 30 else 31)"

definition days_before_month :: "int \<Rightarrow> nat \<Rightarrow> int" where
  "days_before_month y m = sum_list (map (days_in_month y) [1..<m])"

definition ymd2ord :: "int \<Rightarrow> nat \<Rightarrow> int \<Rightarrow> int" where
  "ymd2ord y m dd = days_before_year y + days_before_month y m + dd"

datatype loan_error = InvalidDateRange | LoanNotFound

text \<open>
  How the overdue penalty accrues: interest at a fixed rate on the principal, or at a rate
  per day late.
\<close>

datatype penalty = Fixed real | PerDay real

text \<open>
  Modelled from the spec: \<open>utils/loan_utils.py\<close>, which defines \<open>calculate_total_due\<close>,
  is not among the sources. Section 4.1 of the specification gives its contract: the
  amount due is the principal; when the evaluation date is after the due date a penalty
  is added, a fixed or per-day-late interest on the principal whose rate is a
  configuration constant (here the parameter \<open>p\<close>); a due date before the issue date
  fails with \<open>InvalidDateRange\<close>.
\<close>

definition calculate_total_due :: "penalty \<Rightarrow> real \<Rightarrow> int \<Rightarrow> int \<Rightarrow> int \<Rightarrow> loan_error + real" where
  "calculate_total_due p princ issue_date due current_date =
     (if due < issue_date then Inl InvalidDateRange
      else if current_date > due then
        (case p of
           Fixed r \<Rightarrow> Inr (princ + princ * r)
         | PerDay r \<Rightarrow> Inr (princ + princ * r * real_of_int (current_date - due)))
      else Inr princ)"

text \<open>
  Modelled from the spec: \<open>utils/loan_utils.py\<close>, which defines
  \<open>check_and_release_documents\<close>, is not among the sources. Section 4.2 of the
  specification gives its contract: a missing loan fails with \<open>LoanNotFound\<close>; the
  documents are released, and \<open>documentsReleased\<close> is set, exactly when the due date has
  passed (\<open>currentDate \<ge> dueDate\<close>) and \<open>documentsReleased\<close> is false; the result tells
  whether this call released them. The time stamp of the write is not modelled.
\<close>

definition check_and_release_documents ::
  "db \<Rightarrow> string \<Rightarrow> string \<Rightarrow> int \<Rightarrow> int \<Rightarrow> loan_error + bool \<times> db" where
  "check_and_release_documents d uid loan_id due current_date =
     (case loans d (uid, loan_id) of
        None \<Rightarrow> Inl LoanNotFound
      | Some l \<Rightarrow>
          if due \<le> current_date \<and> \<not> documents_released l then
            Inr (True, d\<lparr>loans := (loans d)((uid, loan_id) \<mapsto> l\<lparr>documents_released := True\<rparr>)\<rparr>)
          else Inr (False, d))"

section \<open>The specification's conditions\<close>

text \<open>
  A text contains the pattern \<open>Score: N\<close>: somewhere in it stand the word \<open>score\<close> in
  any case and a colon, then white space or none, then a digit.
\<close>

definition contains_score_pattern :: "string \<Rightarrow> bool" where
  "contains_score_pattern t =
     (\<exists>pre kw ws dg rest. t = pre @ kw @ ws @ dg # rest \<and> py_lower kw = ''score:'' \<and>
        list_all is_space ws \<and> is_digit dg)"

text \<open>
  The condition under which the specification has identity verification fail with
  \<open>EvidenceMismatch\<close>, in its words: the primary ID number or the name cannot be
  extracted, or the extracted name or phone does not match the authoritative record of
  that ID number (a record that does not exist matches nothing).
\<close>

definition evidence_mismatch ::
  "db \<Rightarrow> string option \<Rightarrow> string option \<Rightarrow> string option \<Rightarrow> bool" where
  "evidence_mismatch d pan_number name_extracted phone_extracted =
     (case (pan_number, name_extracted) of
        (Some p, Some n) \<Rightarrow>
          p = [] \<or> n = [] \<or>
          (case gov_records d p of
             None \<Rightarrow> True
           | Some g \<Rightarrow> py_lower n \<noteq> py_lower (name g) \<or> phone_extracted \<noteq> Some (phone g))
      | _ \<Rightarrow> True)"

text \<open>The response carries the identifier \<open>loan_id\<close> as the value of one of its fields.\<close>

definition response_carries :: "response \<Rightarrow> string \<Rightarrow> bool" where
  "response_carries r loan_id = (JStr loan_id \<in> snd ` set (body r))"

text \<open>A stored score is absent or an integer from 0 to 100.\<close>

definition score_in_range :: "jvalue option \<Rightarrow> bool" where
  "score_in_range x =
     (case x of None \<Rightarrow> True | Some (JInt n) \<Rightarrow> 0 \<le> n \<and> n \<le> 100 | Some _ \<Rightarrow> False)"

text \<open>
  Every score of a trust-score map is in range: the two current scores and the score of
  every history entry.
\<close>

definition trust_in_range :: "trust_score \<Rightarrow> bool" where
  "trust_in_range t =
     (score_in_range (identity_score t) \<and> score_in_range (financial_score t) \<and>
      list_all (\<lambda>h. 0 \<le> score h \<and> score h \<le> 100) (identity_history t) \<and>
      list_all (\<lambda>h. 0 \<le> score h \<and> score h \<le> 100) (financial_history t))"

definition scores_in_range :: "db \<Rightarrow> bool" where
  "scores_in_range d = (\<forall>uid u. users d uid = Some u \<longrightarrow> trust_in_range (trust u))"

section \<open>Sample inputs\<close>

definition sample_env :: env where
  "sample_env = \<lparr>now = 1704067200, now_iso = ''2024-01-01T00:00:00+00:00'',
                 server_timestamp = 1704067200, auto_id = ''L1'', store_error = None\<rparr>"

definition sample_loan :: loan where
  "sample_loan = \<lparr>amount = Finite 10000, purpose = JStr ''seeds'', timestamp = 1704067200,
                  due_date = 1706659200, status = ''rejected'', wallet = JStr ''0xabc'',
                  documents_released = False\<rparr>"

text \<open>A user who has been scored before.\<close>

definition sample_user :: user_doc where
  "sample_user =
     \<lparr>trust = \<lparr>identity_score = Some (JInt 80), identity_verified_at = Some 1700000000,
        identity_history = [\<lparr>score = 80, reason = ''Identity verification completed.'',
                              date = ''2023-11-14T22:13:20+00:00''\<rparr>],
        financial_score = Some (JInt 70), financial_verified_at = Some 1700000000,
        financial_history = [\<lparr>score = 70, reason = ''Regular payments.'',
                               date = ''2023-11-14T22:13:20+00:00''\<rparr>]\<rparr>\<rparr>"

text \<open>
  A store with that user, one loan, a verified government record, an unverified one, and
  a record filed under the bypass PAN.
\<close>

definition sample_db :: db where
  "sample_db =
     \<lparr>users = [''u1'' \<mapsto> sample_user],
      loans = [(''u1'', ''L1'') \<mapsto> sample_loan],
      gov_records =
        [''ABCDE1234F'' \<mapsto> \<lparr>verified = True, name = ''ALICE ROY'', phone = ''9876543210''\<rparr>,
         ''PQRST5678U'' \<mapsto> \<lparr>verified = False, name = ''Alice Roy'', phone = ''9876543210''\<rparr>,
         ''EMPPG7988Q'' \<mapsto> \<lparr>verified = True, name = ''Bob Das'', phone = ''9999999999''\<rparr>]\<rparr>"

definition sample_file :: "string \<Rightarrow> uploaded_file" where
  "sample_file t = \<lparr>mimetype = ''image/png'', filename = ''card.png'', vision = Replied (Some t)\<rparr>"

text \<open>What the vision model may answer for an identity card with the given PAN and phone.\<close>

definition card_text :: "string \<Rightarrow> string \<Rightarrow> string" where
  "card_text pan ph =
     ''PAN: '' @ pan @ [CHR 0x0A] @ ''Aadhaar: 1234 5678 9012'' @ [CHR 0x0A] @
     ''Phone: '' @ ph @ [CHR 0x0A] @ ''Name: Alice Roy''"

definition identity_sample :: "string \<Rightarrow> string \<Rightarrow> string \<Rightarrow> identity_request" where
  "identity_sample pan ph phone_input =
     \<lparr>id_uid = Some ''u1'', id_phone = Some phone_input,
      id_documents = [sample_file (card_text pan ph)]\<rparr>"

definition loan_sample :: "jvalue \<Rightarrow> jvalue" where
  "loan_sample amt = JObj [(''uid'', JStr ''u2''), (''amount'', amt), (''purpose'', JStr ''seeds''),
                           (''wallet'', JStr ''0xabc'')]"

section \<open>Properties of the text search\<close>

lemma score_le_length: "py_lower kw = ''score:'' \<Longrightarrow> length kw = 6"
proof -
  assume "py_lower kw = ''score:''"
  then have "length (py_lower kw) = length ''score:''" by (rule arg_cong)
  then show ?thesis by (simp add: py_lower_def)
qed

lemma list_all_takeWhile: "list_all P (takeWhile P xs)"
  by (induction xs) simp_all

lemma digit_not_space: "is_digit c \<Longrightarrow> \<not> is_space c"
  by (auto simp: is_digit_def is_space_def)

lemma score_match_at_iff:
  "score_match_at s \<noteq> None \<longleftrightarrow>
   (\<exists>kw ws dg rest. s = kw @ ws @ dg # rest \<and> py_lower kw = ''score:'' \<and>
      list_all is_space ws \<and> is_digit dg)"
proof
  assume m: "score_match_at s \<noteq> None"
  let ?r = "dropWhile is_space (drop 6 s)"
  from m have kw: "py_lower (take 6 s) = ''score:''"
    by (simp add: score_match_at_def split: if_splits)
  from m kw have "take 3 (takeWhile is_digit ?r) \<noteq> []"
    by (simp add: score_match_at_def Let_def split: if_splits)
  then have "takeWhile is_digit ?r \<noteq> []" by auto
  then obtain dg rest where r: "?r = dg # rest" and dg: "is_digit dg"
    by (cases ?r) (auto split: if_splits)
  have "s = take 6 s @ takeWhile is_space (drop 6 s) @ ?r" by simp
  with r have "s = take 6 s @ takeWhile is_space (drop 6 s) @ dg # rest" by simp
  moreover have "list_all is_space (takeWhile is_space (drop 6 s))"
    by (rule list_all_takeWhile)
  ultimately show "\<exists>kw ws dg rest. s = kw @ ws @ dg # rest \<and> py_lower kw = ''score:'' \<and>
      list_all is_space ws \<and> is_digit dg"
    using kw dg by blast
next
  assume "\<exists>kw ws dg rest. s = kw @ ws @ dg # rest \<and> py_lower kw = ''score:'' \<and>
      list_all is_space ws \<and> is_digit dg"
  then obtain kw ws dg rest where s: "s = kw @ ws @ dg # rest"
    and kw: "py_lower kw = ''score:''" and ws: "list_all is_space ws" and dg: "is_digit dg"
    by blast
  from kw have len: "length kw = 6" by (rule score_le_length)
  from s len have t: "take 6 s = kw" and d: "drop 6 s = ws @ dg # rest" by simp_all
  from ws dg have "dropWhile is_space (ws @ dg # rest) = dg # rest"
    by (simp add: digit_not_space list_all_iff)
  with t d kw dg show "score_match_at s \<noteq> None"
    by (simp add: score_match_at_def Let_def)
qed

lemma re_search_None_iff:
  "re_search m t = None \<longleftrightarrow> (\<forall>pre suf. t = pre @ suf \<longrightarrow> m suf = None)"
proof (induction t)
  case Nil
  then show ?case by simp
next
  case (Cons c cs)
  show ?case
  proof
    assume a: "re_search m (c # cs) = None"
    then have h: "m (c # cs) = None" and r: "re_search m cs = None"
      by (auto split: option.splits)
    show "\<forall>pre suf. c # cs = pre @ suf \<longrightarrow> m suf = None"
    proof (intro allI impI)
      fix pre suf assume e: "c # cs = pre @ suf"
      show "m suf = None"
      proof (cases pre)
        case Nil with e h show ?thesis by simp
      next
        case (Cons p ps)
        with e have "cs = ps @ suf" by simp
        with r Cons.IH show ?thesis by blast
      qed
    qed
  next
    assume a: "\<forall>pre suf. c # cs = pre @ suf \<longrightarrow> m suf = None"
    then have h: "m (c # cs) = None" by (metis append_Nil)
    have "\<forall>pre suf. cs = pre @ suf \<longrightarrow> m suf = None"
      using a by (metis append_Cons)
    with Cons.IH have "re_search m cs = None" by simp
    with h show "re_search m (c # cs) = None" by simp
  qed
qed

lemma contains_score_pattern_iff:
  "contains_score_pattern t \<longleftrightarrow> (\<exists>pre suf. t = pre @ suf \<and> score_match_at suf \<noteq> None)"
proof
  assume "contains_score_pattern t"
  then obtain pre kw ws dg rest where t: "t = pre @ kw @ ws @ dg # rest"
    and m: "py_lower kw = ''score:'' \<and> list_all is_space ws \<and> is_digit dg"
    unfolding contains_score_pattern_def by blast
  from m have "\<exists>kw' ws' dg' rest'. kw @ ws @ dg # rest = kw' @ ws' @ dg' # rest' \<and>
      py_lower kw' = ''score:'' \<and> list_all is_space ws' \<and> is_digit dg'"
    by (intro exI [of _ kw] exI [of _ ws] exI [of _ dg] exI [of _ rest]) simp
  then have "score_match_at (kw @ ws @ dg # rest) \<noteq> None"
    by (simp only: score_match_at_iff)
  with t show "\<exists>pre suf. t = pre @ suf \<and> score_match_at suf \<noteq> None"
    by (intro exI [of _ pre] exI [of _ "kw @ ws @ dg # rest"] conjI)
next
  assume "\<exists>pre suf. t = pre @ suf \<and> score_match_at suf \<noteq> None"
  then obtain pre suf where t: "t = pre @ suf" and m: "score_match_at suf \<noteq> None"
    by (elim exE conjE)
  from m obtain kw ws dg rest where suf: "suf = kw @ ws @ dg # rest"
    and p: "py_lower kw = ''score:''" "list_all is_space ws" "is_digit dg"
    by (subst (asm) score_match_at_iff) (elim exE conjE)
  from t suf have "t = pre @ kw @ ws @ dg # rest" by (simp only:)
  with p show "contains_score_pattern t"
    unfolding contains_score_pattern_def
    by (intro exI [of _ pre] exI [of _ kw] exI [of _ ws] exI [of _ dg] exI [of _ rest] conjI)
qed

lemma no_score_pattern_iff:
  "re_search score_match_at t = None \<longleftrightarrow> \<not> contains_score_pattern t"
  by (simp only: re_search_None_iff contains_score_pattern_iff not_ex de_Morgan_conj not_not imp_conv_disj)

text \<open>
  The no-break space 0xA0 is white space: it may stand between the colon and the number
  or the name, and a name that is only white space is empty after \<open>strip\<close>.
\<close>

lemma no_break_space_examples:
  "parse_financial_score (''Score:'' @ [CHR 0xA0] @ ''42'') = (42, default_explanation)"
  "name_extracted_of (''PAN: ABCDE1234F, Name:'' @ [CHR 0xA0] @ ''Alice Roy'') = Some ''Alice Roy''"
  "name_extracted_of (''Name:'' @ [CHR 0xA0] @ ''5, Name: Bob'') = Some []"
  "py_lower [CHR 0xC9, CHR ''A'', CHR 0xD7] = [CHR 0xE9, CHR ''a'', CHR 0xD7]"
  by code_simp+

text \<open>The PAN that is found is ten capital letters and digits of ASCII.\<close>

lemma pan_match_at_chars:
  "pan_match_at s = Some m \<Longrightarrow> length m = 10 \<and> list_all (\<lambda>c. is_upper c \<or> is_digit c) m"
proof -
  assume a: "pan_match_at s = Some m"
  then have m: "m = take 10 s" and l: "length (take 10 s) = 10"
    and u1: "list_all is_upper (take 5 (take 10 s))"
    and dg: "list_all is_digit (take 4 (drop 5 (take 10 s)))"
    and u2: "list_all is_upper (drop 9 (take 10 s))"
    by (simp_all add: pan_match_at_def Let_def split: if_splits)
  let ?x = "take 10 s"
  have e1: "?x = take 5 ?x @ drop 5 ?x" by (rule append_take_drop_id [symmetric])
  have e2: "drop 5 ?x = take 4 (drop 5 ?x) @ drop 4 (drop 5 ?x)"
    by (rule append_take_drop_id [symmetric])
  have e3: "drop 4 (drop 5 ?x) = drop 9 ?x" by simp
  have "list_all (\<lambda>c. is_upper c \<or> is_digit c) (take 5 ?x @ take 4 (drop 5 ?x) @ drop 9 ?x)"
    using u1 dg u2 by (auto simp add: list_all_iff)
  also have "take 5 ?x @ take 4 (drop 5 ?x) @ drop 9 ?x = ?x"
    using e1 e2 e3 by metis
  finally show ?thesis using m l by simp
qed

section \<open>Properties of the loan utilities\<close>

text \<open>
  Claim C1. For a loan stored in the ledger, two calls of the release check in sequence,
  whatever the two current dates, both return without error and release at most once: if
  the first call releases and returns true, the flag \<open>documentsReleased\<close> is then true and
  the second call returns false and leaves the ledger as it is.
\<close>

theorem release_at_most_once:
  assumes "loans d (uid, loan_id) = Some l"
  shows "\<exists>r1 d1 r2 d2.
           check_and_release_documents d uid loan_id due c1 = Inr (r1, d1) \<and>
           check_and_release_documents d1 uid loan_id due c2 = Inr (r2, d2) \<and>
           \<not> (r1 \<and> r2) \<and>
           (r1 \<longrightarrow> map_option documents_released (loans d1 (uid, loan_id)) = Some True \<and>
                  \<not> r2 \<and> d2 = d1)"
  using assms by (auto simp add: check_and_release_documents_def)

text \<open>
  Scenario 4 of the specification: due 2024-01-31, first call on 2024-02-01, second call on
  2024-02-02.
\<close>

theorem release_at_most_once_witness:
  "\<exists>d1 d2.
     check_and_release_documents
       \<lparr>users = Map.empty,
        loans = [(''u1'', ''L1'') \<mapsto> \<lparr>amount = Finite 10000, purpose = JStr ''seed'', timestamp = 0,
                  due_date = 0, status = ''approved'', wallet = JStr ''0xabc'',
                  documents_released = False\<rparr>],
        gov_records = Map.empty\<rparr> ''u1'' ''L1'' (ymd2ord 2024 1 31) (ymd2ord 2024 2 1) = Inr (True, d1) \<and>
     check_and_release_documents d1 ''u1'' ''L1'' (ymd2ord 2024 1 31) (ymd2ord 2024 2 2) = Inr (False, d2) \<and>
     map_option documents_released (loans d1 (''u1'', ''L1'')) = Some True"
proof -
  let ?l = "\<lparr>amount = Finite 10000, purpose = JStr ''seed'', timestamp = 0, due_date = 0,
             status = ''approved'', wallet = JStr ''0xabc'', documents_released = False\<rparr>"
  let ?d = "\<lparr>users = Map.empty, loans = [(''u1'', ''L1'') \<mapsto> ?l], gov_records = Map.empty\<rparr>"
  have stored: "loans ?d (''u1'', ''L1'') = Some ?l" by simp
  have due1: "ymd2ord 2024 1 31 \<le> ymd2ord 2024 2 1" by code_simp
  from release_at_most_once [OF stored, of "ymd2ord 2024 1 31" "ymd2ord 2024 2 1" "ymd2ord 2024 2 2"]
  obtain r1 d1 r2 d2 where
    first: "check_and_release_documents ?d ''u1'' ''L1'' (ymd2ord 2024 1 31) (ymd2ord 2024 2 1) = Inr (r1, d1)"
    and second: "check_and_release_documents d1 ''u1'' ''L1'' (ymd2ord 2024 1 31) (ymd2ord 2024 2 2) = Inr (r2, d2)"
    and once: "r1 \<longrightarrow> map_option documents_released (loans d1 (''u1'', ''L1'')) = Some True \<and> \<not> r2 \<and> d2 = d1"
    by blast
  from first due1 have r1 by (simp add: check_and_release_documents_def)
  with once have "\<not> r2" and "map_option documents_released (loans d1 (''u1'', ''L1'')) = Some True"
    by simp_all
  with first second \<open>r1\<close> show ?thesis
    by (intro exI [of _ d1] exI [of _ d2]) simp
qed

text \<open>
  Claim C2. For a principal above zero, an issue date not after the due date and an
  evaluation date not after the due date, the total due is exactly the principal.
\<close>

theorem total_due_not_late:
  assumes "0 < princ" and "issue_date \<le> due" and "current_date \<le> due"
  shows "calculate_total_due p princ issue_date due current_date = Inr princ"
  using assms by (simp add: calculate_total_due_def)

text \<open>Scenario 1 of the specification: 10000, issued 2024-01-01, due 2024-01-31, evaluated 2024-01-15.\<close>

theorem total_due_not_late_witness:
  "(0::real) < 10000 \<and> ymd2ord 2024 1 1 \<le> ymd2ord 2024 1 31 \<and>
   ymd2ord 2024 1 15 \<le> ymd2ord 2024 1 31 \<and>
   calculate_total_due (PerDay (1 / 1000)) 10000 (ymd2ord 2024 1 1) (ymd2ord 2024 1 31)
     (ymd2ord 2024 1 15) = Inr 10000"
proof -
  have a: "(0::real) < 10000" by simp
  have b: "ymd2ord 2024 1 1 \<le> ymd2ord 2024 1 31" by code_simp
  have c: "ymd2ord 2024 1 15 \<le> ymd2ord 2024 1 31" by code_simp
  from total_due_not_late [OF a b c] a b c show ?thesis by blast
qed

text \<open>
  Whether the total of a late day is above the principal is decided by the sign of the
  configured rate, which the specification leaves open.
\<close>

lemma late_total_above_principal_iff:
  assumes "0 < princ" and "issue_date \<le> due" and "due < current_date"
  shows "(\<exists>t. calculate_total_due p princ issue_date due current_date = Inr t \<and> princ < t) \<longleftrightarrow>
         0 < (case p of Fixed r \<Rightarrow> r | PerDay r \<Rightarrow> r)"
proof (cases p)
  case (Fixed r)
  with assms show ?thesis
    by (simp add: calculate_total_due_def zero_less_mult_iff)
next
  case (PerDay r)
  from assms have "0 < real_of_int (current_date - due)" by simp
  with PerDay assms show ?thesis
    by (simp add: calculate_total_due_def zero_less_mult_iff)
qed

section \<open>Properties of identity scoring\<close>

text \<open>
  Claim C4. The identity trust score is an integer from 0 to 100; when all four buckets
  are awarded (verified PAN 40, Aadhaar number extracted 30, extracted phone equal to the
  submitted one 20, name extracted 10) it is exactly 100, and when none is awarded it is 0.
\<close>

theorem identity_score_buckets:
  "0 \<le> identity_trust_score pv av pe pin ne \<and>
   identity_trust_score pv av pe pin ne \<le> 100 \<and>
   (pv \<and> av \<and> truthy pe \<and> pe = Some pin \<and> truthy ne \<longrightarrow>
      identity_trust_score pv av pe pin ne = 100) \<and>
   (\<not> pv \<and> \<not> av \<and> \<not> (truthy pe \<and> pe = Some pin) \<and> \<not> truthy ne \<longrightarrow>
      identity_trust_score pv av pe pin ne = 0)"
  by (auto simp add: identity_trust_score_def Let_def)

theorem identity_score_buckets_witness:
  "identity_trust_score True True (Some ''9876543210'') ''9876543210'' (Some ''Alice Roy'') = 100 \<and>
   identity_trust_score False False None ''9876543210'' None = 0 \<and>
   identity_trust_score True False (Some ''1111111111'') ''9876543210'' (Some ''Alice Roy'') = 50"
  using identity_score_buckets [of True True "Some ''9876543210''" "''9876543210''" "Some ''Alice Roy''"]
        identity_score_buckets [of False False None "''9876543210''" None]
  by (simp add: truthy_def identity_trust_score_def)

section \<open>What the scoring handlers store\<close>

lemma parse_financial_score_range:
  "0 \<le> fst (parse_financial_score t) \<and> fst (parse_financial_score t) \<le> 100"
  by (simp add: parse_financial_score_def split: option.splits)

lemma identity_trust_score_range:
  "0 \<le> identity_trust_score pv av pe pin ne \<and> identity_trust_score pv av pe pin ne \<le> 100"
  by (simp add: identity_trust_score_def Let_def)

lemma extract_documents_Nil: "extract_documents fs = Inr rs \<Longrightarrow> rs \<noteq> [] \<Longrightarrow> fs \<noteq> []"
  by (cases fs) simp_all

lemma users_merge_trust:
  "users (merge_trust d uid f) =
     (users d)(uid \<mapsto> (case users d uid of None \<Rightarrow> empty_user | Some u \<Rightarrow> u)
                        \<lparr>trust := f (trust (case users d uid of None \<Rightarrow> empty_user | Some u \<Rightarrow> u))\<rparr>)"
  by (simp add: merge_trust_def Let_def)

lemma merge_trust_others:
  "loans (merge_trust d uid f) = loans d" "gov_records (merge_trust d uid f) = gov_records d"
  by (simp_all add: merge_trust_def Let_def)

lemma empty_trust_in_range: "trust_in_range (trust empty_user)"
  by (simp add: empty_user_def empty_trust_def trust_in_range_def score_in_range_def)

lemma scores_in_range_merge:
  assumes inv: "scores_in_range d"
    and keep: "\<And>t. trust_in_range t \<Longrightarrow> trust_in_range (f t)"
  shows "scores_in_range (merge_trust d uid f)"
proof -
  let ?u = "case users d uid of None \<Rightarrow> empty_user | Some u \<Rightarrow> u"
  have old: "trust_in_range (trust ?u)"
  proof (cases "users d uid")
    case None
    then show ?thesis by (simp add: empty_trust_in_range)
  next
    case (Some u)
    with inv show ?thesis by (simp add: scores_in_range_def)
  qed
  show ?thesis
    unfolding scores_in_range_def users_merge_trust
  proof (intro allI impI)
    fix v u assume a: "((users d)(uid \<mapsto> ?u\<lparr>trust := f (trust ?u)\<rparr>)) v = Some u"
    show "trust_in_range (trust u)"
    proof (cases "v = uid")
      case True
      with a have "u = ?u\<lparr>trust := f (trust ?u)\<rparr>" by simp
      with old keep show ?thesis by simp
    next
      case False
      with a have "users d v = Some u" by simp
      with inv show ?thesis by (simp add: scores_in_range_def)
    qed
  qed
qed

lemma financial_store:
  "(code (fst (verify_financial_documents scorer e d req)) \<noteq> 200 \<and>
    snd (verify_financial_documents scorer e d req) = d) \<or>
   (\<exists>uid t. fin_uid req = Some uid \<and>
      code (fst (verify_financial_documents scorer e d req)) = 200 \<and>
      map_of (body (fst (verify_financial_documents scorer e d req))) ''trust_score'' =
        Some (JInt (fst (parse_financial_score t))) \<and>
      snd (verify_financial_documents scorer e d req) =
        merge_trust d uid (\<lambda>tr. tr\<lparr>financial_score := Some (JInt (fst (parse_financial_score t))),
          financial_verified_at := Some (server_timestamp e),
          financial_history := [\<lparr>score = fst (parse_financial_score t),
             reason = snd (parse_financial_score t), date = now_iso e\<rparr>]\<rparr>))"
  by (auto simp add: verify_financial_documents_def Let_def split_beta error_response_def
      financial_failure_def split: option.splits sum.splits upstream.splits)


lemma check_pan_rejection: "check_pan d p n pin = Inl r \<Longrightarrow> code r = 403"
  by (auto simp add: check_pan_def error_response_def split: if_splits option.splits)

lemma identity_verdict_store:
  "(code (fst (identity_verdict e d uid pin rs pan aad nm ph)) \<noteq> 200 \<and>
    snd (identity_verdict e d uid pin rs pan aad nm ph) = d) \<or>
   (code (fst (identity_verdict e d uid pin rs pan aad nm ph)) = 200 \<and>
    map_of (body (fst (identity_verdict e d uid pin rs pan aad nm ph))) ''trust_score'' =
      Some (JInt (identity_trust_score True (truthy aad) ph pin nm)) \<and>
    snd (identity_verdict e d uid pin rs pan aad nm ph) =
      merge_trust d uid (\<lambda>tr. tr\<lparr>identity_score :=
          Some (JInt (identity_trust_score True (truthy aad) ph pin nm)),
        identity_verified_at := Some (server_timestamp e),
        identity_history := [\<lparr>score = identity_trust_score True (truthy aad) ph pin nm,
           reason = ''Identity verification completed. PAN Verified: '' @ py_bool_str True @
                    '', Aadhaar Present: '' @ py_bool_str (truthy aad),
           date = now_iso e\<rparr>]\<rparr>))"
proof (cases "\<not> truthy pan \<or> \<not> truthy nm")
  case True
  then show ?thesis by (simp add: identity_verdict_def error_response_def)
next
  case ok: False
  let ?p = "case pan of None \<Rightarrow> [] | Some p \<Rightarrow> p"
  let ?n = "case nm of None \<Rightarrow> [] | Some n \<Rightarrow> n"
  show ?thesis
  proof (cases "store_error e")
    case (Some ex)
    show ?thesis
    proof (cases "?p = bypass_pan")
      case True
      then have "check_pan d ?p ?n pin = Inr ''PAN bypass code detected.''"
        by (simp add: check_pan_def)
      with ok Some True show ?thesis
        by (simp add: identity_verdict_def Let_def identity_failure_def)
    next
      case False
      with ok Some show ?thesis
        by (simp add: identity_verdict_def Let_def identity_failure_def)
    qed
  next
    case None
    show ?thesis
    proof (cases "check_pan d ?p ?n pin")
      case (Inl r)
      with ok None check_pan_rejection [OF Inl] show ?thesis
        by (simp add: identity_verdict_def Let_def)
    next
      case (Inr m)
      with ok None show ?thesis by (simp add: identity_verdict_def Let_def)
    qed
  qed
qed

lemma identity_store:
  "(code (fst (verify_identity_documents e d req)) \<noteq> 200 \<and>
    snd (verify_identity_documents e d req) = d) \<or>
   (\<exists>uid n. id_uid req = Some uid \<and> 0 \<le> n \<and> n \<le> 100 \<and>
      code (fst (verify_identity_documents e d req)) = 200 \<and>
      map_of (body (fst (verify_identity_documents e d req))) ''trust_score'' = Some (JInt n) \<and>
      (\<exists>why. snd (verify_identity_documents e d req) =
        merge_trust d uid (\<lambda>tr. tr\<lparr>identity_score := Some (JInt n),
          identity_verified_at := Some (server_timestamp e),
          identity_history := [\<lparr>score = n, reason = why, date = now_iso e\<rparr>]\<rparr>)))"
proof (cases "truthy (id_uid req) \<and> truthy (id_phone req) \<and> id_documents req \<noteq> [] \<and>
              (\<exists>rs. extract_documents (id_documents req) = Inr rs \<and> rs \<noteq> [])")
  case False
  then show ?thesis
    by (auto simp add: verify_identity_documents_def error_response_def identity_failure_def
        split: sum.splits)
next
  case True
  then obtain rs uid pin where rs: "extract_documents (id_documents req) = Inr rs" "rs \<noteq> []"
    and uid: "id_uid req = Some uid" and pin: "id_phone req = Some pin"
    by (auto simp add: truthy_def split: option.splits)
  let ?c = "combined_text rs"
  let ?v = "identity_verdict e d uid pin rs (pan_number_of ?c) (aadhaar_number_of ?c)
              (name_extracted_of ?c) (phone_extracted_of ?c)"
  from True rs uid pin have eq: "verify_identity_documents e d req = ?v"
    by (simp add: verify_identity_documents_def Let_def)
  from identity_verdict_store [of e d uid pin rs "pan_number_of ?c" "aadhaar_number_of ?c"
      "name_extracted_of ?c" "phone_extracted_of ?c"]
  show ?thesis
  proof
    assume "code (fst ?v) \<noteq> 200 \<and> snd ?v = d"
    with eq show ?thesis by simp
  next
    assume a: "code (fst ?v) = 200 \<and>
      map_of (body (fst ?v)) ''trust_score'' =
        Some (JInt (identity_trust_score True (truthy (aadhaar_number_of ?c))
                 (phone_extracted_of ?c) pin (name_extracted_of ?c))) \<and>
      snd ?v = merge_trust d uid (\<lambda>tr. tr\<lparr>identity_score :=
          Some (JInt (identity_trust_score True (truthy (aadhaar_number_of ?c))
                 (phone_extracted_of ?c) pin (name_extracted_of ?c))),
        identity_verified_at := Some (server_timestamp e),
        identity_history := [\<lparr>score = identity_trust_score True (truthy (aadhaar_number_of ?c))
                 (phone_extracted_of ?c) pin (name_extracted_of ?c),
           reason = ''Identity verification completed. PAN Verified: '' @ py_bool_str True @
                    '', Aadhaar Present: '' @ py_bool_str (truthy (aadhaar_number_of ?c)),
           date = now_iso e\<rparr>]\<rparr>)"
    let ?n = "identity_trust_score True (truthy (aadhaar_number_of ?c))
                 (phone_extracted_of ?c) pin (name_extracted_of ?c)"
    from identity_trust_score_range have "0 \<le> ?n \<and> ?n \<le> 100" .
    with a uid eq show ?thesis
      by (intro disjI2 exI [of _ uid] exI [of _ ?n]) auto
  qed
qed

section \<open>Properties of financial scoring\<close>

text \<open>
  Claim C7. When the request names a user, at least one document of an allowed type was
  read, the scorer replied, the store can be reached, and the scorer's text does not contain
  a \<open>Score: N\<close> pattern, the financial handler answers 200 with the fallback score 5 and the
  non-empty explanation that the score could not be determined. After it the user's
  document holds that score, the time of the write and a history of the one entry with
  that score and explanation; the identity fields of the document, the other users, the
  loans and the government records are as before.
\<close>

theorem financial_fallback:
  assumes uid: "fin_uid req = Some uid" "uid \<noteq> []"
    and files: "extract_documents (fin_documents req) = Inr rs" "rs \<noteq> []"
    and reply: "scorer (combined_text rs) = Replied t"
    and nopat: "\<not> contains_score_pattern (case t of None \<Rightarrow> [] | Some s \<Rightarrow> s)"
    and store: "store_error e = None"
  shows "code (fst (verify_financial_documents scorer e d req)) = 200 \<and>
         map_of (body (fst (verify_financial_documents scorer e d req))) ''trust_score'' =
           Some (JInt 5) \<and>
         map_of (body (fst (verify_financial_documents scorer e d req))) ''explanation'' =
           Some (JStr default_explanation) \<and>
         default_explanation \<noteq> [] \<and>
         (\<exists>u. users (snd (verify_financial_documents scorer e d req)) uid = Some u \<and>
              financial_score (trust u) = Some (JInt 5) \<and>
              financial_verified_at (trust u) = Some (server_timestamp e) \<and>
              financial_history (trust u) =
                [\<lparr>score = 5, reason = default_explanation, date = now_iso e\<rparr>] \<and>
              (\<forall>u0. users d uid = Some u0 \<longrightarrow>
                 identity_score (trust u) = identity_score (trust u0) \<and>
                 identity_verified_at (trust u) = identity_verified_at (trust u0) \<and>
                 identity_history (trust u) = identity_history (trust u0))) \<and>
         (\<forall>v. v \<noteq> uid \<longrightarrow>
              users (snd (verify_financial_documents scorer e d req)) v = users d v) \<and>
         loans (snd (verify_financial_documents scorer e d req)) = loans d \<and>
         gov_records (snd (verify_financial_documents scorer e d req)) = gov_records d"
proof -
  let ?R = "verify_financial_documents scorer e d req"
  from nopat have "re_search score_match_at (case t of None \<Rightarrow> [] | Some s \<Rightarrow> s) = None"
    by (rule iffD2 [OF no_score_pattern_iff])
  then have p: "parse_financial_score (case t of None \<Rightarrow> [] | Some s \<Rightarrow> s) =
      (5, default_explanation)"
    by (simp add: parse_financial_score_def)
  from files have nonempty: "fin_documents req \<noteq> []" by (rule extract_documents_Nil)
  have ne: "default_explanation \<noteq> []" by (simp add: default_explanation_def)
  from uid files reply store p nonempty
  have r: "fst ?R = \<lparr>code = 200,
        body = [(''trust_score'', JInt 5), (''results'', results_json rs),
                (''message'', JStr ''Financial documents evaluated successfully.''),
                (''explanation'', JStr default_explanation)]\<rparr>"
    and s: "snd ?R = merge_trust d uid (\<lambda>tr. tr\<lparr>financial_score := Some (JInt 5),
             financial_verified_at := Some (server_timestamp e),
             financial_history :=
               [\<lparr>score = 5, reason = default_explanation, date = now_iso e\<rparr>]\<rparr>)"
    by (simp_all add: verify_financial_documents_def Let_def)
  have a: "code (fst ?R) = 200" "map_of (body (fst ?R)) ''trust_score'' = Some (JInt 5)"
    "map_of (body (fst ?R)) ''explanation'' = Some (JStr default_explanation)"
    unfolding r by simp_all
  have b: "\<exists>u. users (snd ?R) uid = Some u \<and>
              financial_score (trust u) = Some (JInt 5) \<and>
              financial_verified_at (trust u) = Some (server_timestamp e) \<and>
              financial_history (trust u) =
                [\<lparr>score = 5, reason = default_explanation, date = now_iso e\<rparr>] \<and>
              (\<forall>u0. users d uid = Some u0 \<longrightarrow>
                 identity_score (trust u) = identity_score (trust u0) \<and>
                 identity_verified_at (trust u) = identity_verified_at (trust u0) \<and>
                 identity_history (trust u) = identity_history (trust u0))"
    unfolding s users_merge_trust by simp
  have c: "\<forall>v. v \<noteq> uid \<longrightarrow> users (snd ?R) v = users d v"
    unfolding s users_merge_trust by simp
  have o: "loans (snd ?R) = loans d" "gov_records (snd ?R) = gov_records d"
    unfolding s by (simp_all add: merge_trust_others)
  from a ne b c o show ?thesis by (intro conjI)
qed

text \<open>
  The sample user had the financial score 70 and the identity score 80: the first is now
  5, the second is as it was.
\<close>

theorem financial_fallback_witness:
  "map_option (financial_score \<circ> trust) (users sample_db ''u1'') = Some (Some (JInt 70)) \<and>
   code (fst (verify_financial_documents (\<lambda>_. Replied (Some ''I cannot score this.''))
      sample_env sample_db
      \<lparr>fin_uid = Some ''u1'', fin_documents = [sample_file ''Amount: 120'']\<rparr>)) = 200 \<and>
   map_of (body (fst (verify_financial_documents (\<lambda>_. Replied (Some ''I cannot score this.''))
      sample_env sample_db
      \<lparr>fin_uid = Some ''u1'', fin_documents = [sample_file ''Amount: 120'']\<rparr>)))
      ''trust_score'' = Some (JInt 5) \<and>
   (\<exists>u. users (snd (verify_financial_documents (\<lambda>_. Replied (Some ''I cannot score this.''))
          sample_env sample_db
          \<lparr>fin_uid = Some ''u1'', fin_documents = [sample_file ''Amount: 120'']\<rparr>)) ''u1'' =
          Some u \<and>
        financial_score (trust u) = Some (JInt 5) \<and>
        financial_history (trust u) =
          [\<lparr>score = 5, reason = default_explanation, date = now_iso sample_env\<rparr>] \<and>
        identity_score (trust u) = Some (JInt 80))"
proof -
  let ?req = "\<lparr>fin_uid = Some ''u1'', fin_documents = [sample_file ''Amount: 120'']\<rparr>"
  let ?scorer = "\<lambda>_::string. Replied (Some ''I cannot score this.'')"
  let ?R = "verify_financial_documents ?scorer sample_env sample_db ?req"
  have a: "fin_uid ?req = Some ''u1''" "''u1'' \<noteq> []" by simp_all
  have b: "extract_documents (fin_documents ?req) = Inr [(''card.png'', ''Amount: 120'')]"
    by code_simp
  have c: "[(''card.png'', ''Amount: 120'')] \<noteq> []" by simp
  have r: "?scorer (combined_text [(''card.png'', ''Amount: 120'')]) =
             Replied (Some ''I cannot score this.'')" by simp
  have "re_search score_match_at ''I cannot score this.'' = None" by code_simp
  then have "\<not> contains_score_pattern ''I cannot score this.''"
    by (rule iffD1 [OF no_score_pattern_iff])
  then have n: "\<not> contains_score_pattern
      (case Some ''I cannot score this.'' of None \<Rightarrow> [] | Some s \<Rightarrow> s)"
    by simp
  have s: "store_error sample_env = None" by (simp add: sample_env_def)
  have before: "users sample_db ''u1'' = Some sample_user" by (simp add: sample_db_def)
  have old: "identity_score (trust sample_user) = Some (JInt 80)"
    "financial_score (trust sample_user) = Some (JInt 70)"
    by (simp_all add: sample_user_def)
  note f = financial_fallback [of ?req "''u1''" _ ?scorer, OF a b c r n s, of sample_db]
  from f have k: "code (fst ?R) = 200" "map_of (body (fst ?R)) ''trust_score'' = Some (JInt 5)"
    by (rule conjunct1, rule conjunct2 [THEN conjunct1])
  from f obtain u where u: "users (snd ?R) ''u1'' = Some u"
      "financial_score (trust u) = Some (JInt 5)"
      "financial_history (trust u) =
          [\<lparr>score = 5, reason = default_explanation, date = now_iso sample_env\<rparr>]"
      "\<forall>u0. users sample_db ''u1'' = Some u0 \<longrightarrow>
                 identity_score (trust u) = identity_score (trust u0) \<and>
                 identity_verified_at (trust u) = identity_verified_at (trust u0) \<and>
                 identity_history (trust u) = identity_history (trust u0)"
    by (elim conjE exE)
  from u(4) before old have "identity_score (trust u) = Some (JInt 80)" by simp
  with u(1,2,3) have "\<exists>u. users (snd ?R) ''u1'' = Some u \<and>
        financial_score (trust u) = Some (JInt 5) \<and>
        financial_history (trust u) =
          [\<lparr>score = 5, reason = default_explanation, date = now_iso sample_env\<rparr>] \<and>
        identity_score (trust u) = Some (JInt 80)"
    by (intro exI [of _ u] conjI)
  moreover from before old
  have "map_option (financial_score \<circ> trust) (users sample_db ''u1'') = Some (Some (JInt 70))"
    by simp
  ultimately show ?thesis using k by (intro conjI)
qed

section \<open>The range of the stored scores\<close>

lemma sample_db_in_range: "scores_in_range sample_db"
  by (auto simp add: scores_in_range_def sample_db_def sample_user_def trust_in_range_def
      score_in_range_def split: if_splits)

text \<open>
  Claim C10, as the code has it. The two scoring handlers keep every stored score, the
  current ones and those of the history entries, an integer from 0 to 100: a request that
  is not answered with 200 leaves the store as it was, and one answered with 200 stores,
  for the user of the request, the integer score of the response, which is from 0 to 100,
  as the current score and as the score of the one history entry. The financial score is
  the parsed number clamped by \<open>min(100, max(0, n))\<close>, the identity score the bucket sum
  capped at 100.
\<close>

theorem scoring_stores_scores_in_range:
  "(scores_in_range d \<longrightarrow>
      scores_in_range (snd (verify_financial_documents scorer e d req)) \<and>
      scores_in_range (snd (verify_identity_documents e d ireq))) \<and>
   (code (fst (verify_financial_documents scorer e d req)) \<noteq> 200 \<longrightarrow>
      snd (verify_financial_documents scorer e d req) = d) \<and>
   (code (fst (verify_financial_documents scorer e d req)) = 200 \<longrightarrow>
      (\<exists>uid n u. fin_uid req = Some uid \<and> 0 \<le> n \<and> n \<le> 100 \<and>
         map_of (body (fst (verify_financial_documents scorer e d req))) ''trust_score'' =
           Some (JInt n) \<and>
         users (snd (verify_financial_documents scorer e d req)) uid = Some u \<and>
         financial_score (trust u) = Some (JInt n) \<and>
         map score (financial_history (trust u)) = [n])) \<and>
   (code (fst (verify_identity_documents e d ireq)) \<noteq> 200 \<longrightarrow>
      snd (verify_identity_documents e d ireq) = d) \<and>
   (code (fst (verify_identity_documents e d ireq)) = 200 \<longrightarrow>
      (\<exists>uid n u. id_uid ireq = Some uid \<and> 0 \<le> n \<and> n \<le> 100 \<and>
         map_of (body (fst (verify_identity_documents e d ireq))) ''trust_score'' =
           Some (JInt n) \<and>
         users (snd (verify_identity_documents e d ireq)) uid = Some u \<and>
         identity_score (trust u) = Some (JInt n) \<and>
         map score (identity_history (trust u)) = [n]))"
proof -
  let ?f = "verify_financial_documents scorer e d req"
  let ?i = "verify_identity_documents e d ireq"
  have fin_cases: "(code (fst ?f) \<noteq> 200 \<and> snd ?f = d) \<or>
      (\<exists>uid n why. fin_uid req = Some uid \<and> 0 \<le> n \<and> n \<le> 100 \<and> code (fst ?f) = 200 \<and>
         map_of (body (fst ?f)) ''trust_score'' = Some (JInt n) \<and>
         snd ?f = merge_trust d uid (\<lambda>tr. tr\<lparr>financial_score := Some (JInt n),
           financial_verified_at := Some (server_timestamp e),
           financial_history := [\<lparr>score = n, reason = why, date = now_iso e\<rparr>]\<rparr>))"
    using financial_store [of scorer e d req]
  proof
    assume "code (fst ?f) \<noteq> 200 \<and> snd ?f = d"
    then show ?thesis by (rule disjI1)
  next
    assume "\<exists>uid t. fin_uid req = Some uid \<and> code (fst ?f) = 200 \<and>
      map_of (body (fst ?f)) ''trust_score'' = Some (JInt (fst (parse_financial_score t))) \<and>
      snd ?f = merge_trust d uid (\<lambda>tr. tr\<lparr>financial_score := Some (JInt (fst (parse_financial_score t))),
          financial_verified_at := Some (server_timestamp e),
          financial_history := [\<lparr>score = fst (parse_financial_score t),
             reason = snd (parse_financial_score t), date = now_iso e\<rparr>]\<rparr>)"
    then obtain uid t where u: "fin_uid req = Some uid" and k: "code (fst ?f) = 200"
      and b: "map_of (body (fst ?f)) ''trust_score'' = Some (JInt (fst (parse_financial_score t)))"
      and w: "snd ?f = merge_trust d uid
        (\<lambda>tr. tr\<lparr>financial_score := Some (JInt (fst (parse_financial_score t))),
          financial_verified_at := Some (server_timestamp e),
          financial_history := [\<lparr>score = fst (parse_financial_score t),
             reason = snd (parse_financial_score t), date = now_iso e\<rparr>]\<rparr>)"
      by (elim exE conjE)
    from parse_financial_score_range [of t]
    have "0 \<le> fst (parse_financial_score t)" "fst (parse_financial_score t) \<le> 100"
      by simp_all
    with u k b w show ?thesis
      by (intro disjI2 exI [of _ uid] exI [of _ "fst (parse_financial_score t)"]
          exI [of _ "snd (parse_financial_score t)"] conjI)
  qed
  have fin_inv: "scores_in_range (snd ?f)" if inv: "scores_in_range d"
    using fin_cases
  proof
    assume "code (fst ?f) \<noteq> 200 \<and> snd ?f = d"
    with inv show ?thesis by simp
  next
    assume "\<exists>uid n why. fin_uid req = Some uid \<and> 0 \<le> n \<and> n \<le> 100 \<and> code (fst ?f) = 200 \<and>
         map_of (body (fst ?f)) ''trust_score'' = Some (JInt n) \<and>
         snd ?f = merge_trust d uid (\<lambda>tr. tr\<lparr>financial_score := Some (JInt n),
           financial_verified_at := Some (server_timestamp e),
           financial_history := [\<lparr>score = n, reason = why, date = now_iso e\<rparr>]\<rparr>)"
    then obtain uid n why where n: "0 \<le> n" "n \<le> 100"
      and w: "snd ?f = merge_trust d uid (\<lambda>tr. tr\<lparr>financial_score := Some (JInt n),
           financial_verified_at := Some (server_timestamp e),
           financial_history := [\<lparr>score = n, reason = why, date = now_iso e\<rparr>]\<rparr>)"
      by (elim exE conjE)
    show ?thesis
      unfolding w using inv n
      by (intro scores_in_range_merge) (simp_all add: trust_in_range_def score_in_range_def)
  qed
  have id_inv: "scores_in_range (snd ?i)" if inv: "scores_in_range d"
    using identity_store [of e d ireq]
  proof
    assume "code (fst ?i) \<noteq> 200 \<and> snd ?i = d"
    with inv show ?thesis by simp
  next
    assume "\<exists>uid n. id_uid ireq = Some uid \<and> 0 \<le> n \<and> n \<le> 100 \<and> code (fst ?i) = 200 \<and>
      map_of (body (fst ?i)) ''trust_score'' = Some (JInt n) \<and>
      (\<exists>why. snd ?i = merge_trust d uid (\<lambda>tr. tr\<lparr>identity_score := Some (JInt n),
          identity_verified_at := Some (server_timestamp e),
          identity_history := [\<lparr>score = n, reason = why, date = now_iso e\<rparr>]\<rparr>))"
    then obtain uid n why where n: "0 \<le> n" "n \<le> 100"
      and w: "snd ?i = merge_trust d uid (\<lambda>tr. tr\<lparr>identity_score := Some (JInt n),
          identity_verified_at := Some (server_timestamp e),
          identity_history := [\<lparr>score = n, reason = why, date = now_iso e\<rparr>]\<rparr>)"
      by (elim exE conjE)
    show ?thesis
      unfolding w using inv n
      by (intro scores_in_range_merge) (simp_all add: trust_in_range_def score_in_range_def)
  qed
  have fin_fail: "snd ?f = d" if "code (fst ?f) \<noteq> 200"
    using fin_cases that by (elim disjE exE conjE) simp_all
  have id_fail: "snd ?i = d" if "code (fst ?i) \<noteq> 200"
    using identity_store [of e d ireq] that by (elim disjE exE conjE) simp_all
  have fin_ok: "\<exists>uid n u. fin_uid req = Some uid \<and> 0 \<le> n \<and> n \<le> 100 \<and>
         map_of (body (fst ?f)) ''trust_score'' = Some (JInt n) \<and>
         users (snd ?f) uid = Some u \<and> financial_score (trust u) = Some (JInt n) \<and>
         map score (financial_history (trust u)) = [n]"
    if ok: "code (fst ?f) = 200"
    using fin_cases
  proof
    assume "code (fst ?f) \<noteq> 200 \<and> snd ?f = d"
    with ok show ?thesis by simp
  next
    assume "\<exists>uid n why. fin_uid req = Some uid \<and> 0 \<le> n \<and> n \<le> 100 \<and> code (fst ?f) = 200 \<and>
         map_of (body (fst ?f)) ''trust_score'' = Some (JInt n) \<and>
         snd ?f = merge_trust d uid (\<lambda>tr. tr\<lparr>financial_score := Some (JInt n),
           financial_verified_at := Some (server_timestamp e),
           financial_history := [\<lparr>score = n, reason = why, date = now_iso e\<rparr>]\<rparr>)"
    then obtain uid n why where u: "fin_uid req = Some uid" and n: "0 \<le> n" "n \<le> 100"
      and b: "map_of (body (fst ?f)) ''trust_score'' = Some (JInt n)"
      and w: "snd ?f = merge_trust d uid (\<lambda>tr. tr\<lparr>financial_score := Some (JInt n),
           financial_verified_at := Some (server_timestamp e),
           financial_history := [\<lparr>score = n, reason = why, date = now_iso e\<rparr>]\<rparr>)"
      by (elim exE conjE)
    let ?u0 = "case users d uid of None \<Rightarrow> empty_user | Some u \<Rightarrow> u"
    let ?u = "?u0\<lparr>trust := (trust ?u0)\<lparr>financial_score := Some (JInt n),
           financial_verified_at := Some (server_timestamp e),
           financial_history := [\<lparr>score = n, reason = why, date = now_iso e\<rparr>]\<rparr>\<rparr>"
    have "users (snd ?f) uid = Some ?u" unfolding w users_merge_trust by simp
    moreover have "financial_score (trust ?u) = Some (JInt n)"
      "map score (financial_history (trust ?u)) = [n]" by simp_all
    ultimately show ?thesis using u n b
      by (intro exI [of _ uid] exI [of _ n] exI [of _ ?u] conjI)
  qed
  have id_ok: "\<exists>uid n u. id_uid ireq = Some uid \<and> 0 \<le> n \<and> n \<le> 100 \<and>
         map_of (body (fst ?i)) ''trust_score'' = Some (JInt n) \<and>
         users (snd ?i) uid = Some u \<and> identity_score (trust u) = Some (JInt n) \<and>
         map score (identity_history (trust u)) = [n]"
    if ok: "code (fst ?i) = 200"
    using identity_store [of e d ireq]
  proof
    assume "code (fst ?i) \<noteq> 200 \<and> snd ?i = d"
    with ok show ?thesis by simp
  next
    assume "\<exists>uid n. id_uid ireq = Some uid \<and> 0 \<le> n \<and> n \<le> 100 \<and> code (fst ?i) = 200 \<and>
      map_of (body (fst ?i)) ''trust_score'' = Some (JInt n) \<and>
      (\<exists>why. snd ?i = merge_trust d uid (\<lambda>tr. tr\<lparr>identity_score := Some (JInt n),
          identity_verified_at := Some (server_timestamp e),
          identity_history := [\<lparr>score = n, reason = why, date = now_iso e\<rparr>]\<rparr>))"
    then obtain uid n why where u: "id_uid ireq = Some uid" and n: "0 \<le> n" "n \<le> 100"
      and b: "map_of (body (fst ?i)) ''trust_score'' = Some (JInt n)"
      and w: "snd ?i = merge_trust d uid (\<lambda>tr. tr\<lparr>identity_score := Some (JInt n),
          identity_verified_at := Some (server_timestamp e),
          identity_history := [\<lparr>score = n, reason = why, date = now_iso e\<rparr>]\<rparr>)"
      by (elim exE conjE)
    let ?u0 = "case users d uid of None \<Rightarrow> empty_user | Some u \<Rightarrow> u"
    let ?u = "?u0\<lparr>trust := (trust ?u0)\<lparr>identity_score := Some (JInt n),
          identity_verified_at := Some (server_timestamp e),
          identity_history := [\<lparr>score = n, reason = why, date = now_iso e\<rparr>]\<rparr>\<rparr>"
    have "users (snd ?i) uid = Some ?u" unfolding w users_merge_trust by simp
    moreover have "identity_score (trust ?u) = Some (JInt n)"
      "map score (identity_history (trust ?u)) = [n]" by simp_all
    ultimately show ?thesis using u n b
      by (intro exI [of _ uid] exI [of _ n] exI [of _ ?u] conjI)
  qed
  from fin_inv id_inv fin_fail id_fail fin_ok id_ok show ?thesis by (intro conjI impI)
qed

text \<open>
  A scorer that answers \<open>Score: 999\<close> has 100 stored; an identity card that earns all four
  buckets has 100 stored.
\<close>

theorem scoring_stores_scores_in_range_witness:
  "scores_in_range sample_db \<and>
   scores_in_range (snd (verify_financial_documents (\<lambda>_. Replied (Some ''Score: 999''))
      sample_env sample_db
      \<lparr>fin_uid = Some ''u1'', fin_documents = [sample_file ''Amount: 120'']\<rparr>)) \<and>
   scores_in_range (snd (verify_identity_documents sample_env sample_db
      (identity_sample ''ABCDE1234F'' ''9876543210'' ''9876543210''))) \<and>
   map_option (\<lambda>u. (financial_score (trust u), map score (financial_history (trust u))))
     (users (snd (verify_financial_documents (\<lambda>_. Replied (Some ''Score: 999''))
        sample_env sample_db
        \<lparr>fin_uid = Some ''u1'', fin_documents = [sample_file ''Amount: 120'']\<rparr>)) ''u1'') =
     Some (Some (JInt 100), [100]) \<and>
   map_option (\<lambda>u. (identity_score (trust u), map score (identity_history (trust u))))
     (users (snd (verify_identity_documents sample_env sample_db
        (identity_sample ''ABCDE1234F'' ''9876543210'' ''9876543210''))) ''u1'') =
     Some (Some (JInt 100), [100])"
proof -
  let ?req = "\<lparr>fin_uid = Some ''u1'', fin_documents = [sample_file ''Amount: 120'']\<rparr>"
  let ?scorer = "\<lambda>_::string. Replied (Some ''Score: 999'')"
  let ?ireq = "identity_sample ''ABCDE1234F'' ''9876543210'' ''9876543210''"
  have f: "map_option (\<lambda>u. (financial_score (trust u), map score (financial_history (trust u))))
     (users (snd (verify_financial_documents ?scorer sample_env sample_db ?req)) ''u1'') =
     Some (Some (JInt 100), [100])"
    by code_simp
  have i: "map_option (\<lambda>u. (identity_score (trust u), map score (identity_history (trust u))))
     (users (snd (verify_identity_documents sample_env sample_db ?ireq)) ''u1'') =
     Some (Some (JInt 100), [100])"
    by code_simp
  from scoring_stores_scores_in_range [of sample_db ?scorer sample_env ?req ?ireq]
  have "scores_in_range sample_db \<longrightarrow>
        scores_in_range (snd (verify_financial_documents ?scorer sample_env sample_db ?req)) \<and>
        scores_in_range (snd (verify_identity_documents sample_env sample_db ?ireq))"
    by (rule conjunct1)
  then have "scores_in_range (snd (verify_financial_documents ?scorer sample_env sample_db ?req)) \<and>
        scores_in_range (snd (verify_identity_documents sample_env sample_db ?ireq))"
    using sample_db_in_range by (rule mp)
  then have a: "scores_in_range (snd (verify_financial_documents ?scorer sample_env sample_db ?req))"
    and b: "scores_in_range (snd (verify_identity_documents sample_env sample_db ?ireq))"
    by (rule conjunct1, rule conjunct2)
  from sample_db_in_range a b f i show ?thesis by (intro conjI)
qed

text \<open>
  Claim C10 as stated, that no operation ever stores a score outside 0 to 100, fails for
  the profile update: it writes the request's JSON into the user document as it comes, so
  a request carrying \<open>{"trust_score": {"identity_score": 999}}\<close> stores 999.
\<close>

theorem profile_update_stores_any_score:
  "scores_in_range sample_db \<and>
   map_option (identity_score \<circ> trust)
     (users (snd (user_profile_post sample_db ''u1''
        \<lparr>upd_identity_score = Some (JInt 999), upd_financial_score = None\<rparr>)) ''u1'') =
     Some (Some (JInt 999)) \<and>
   \<not> scores_in_range (snd (user_profile_post sample_db ''u1''
        \<lparr>upd_identity_score = Some (JInt 999), upd_financial_score = None\<rparr>))"
proof -
  let ?d = "snd (user_profile_post sample_db ''u1''
        \<lparr>upd_identity_score = Some (JInt 999), upd_financial_score = None\<rparr>)"
  have u: "users ?d ''u1'' =
      Some (sample_user\<lparr>trust := (trust sample_user)\<lparr>identity_score := Some (JInt 999)\<rparr>\<rparr>)"
    by (simp add: user_profile_post_def users_merge_trust sample_db_def)
  then have stored: "map_option (identity_score \<circ> trust) (users ?d ''u1'') = Some (Some (JInt 999))"
    by simp
  have "\<not> scores_in_range ?d"
  proof
    assume "scores_in_range ?d"
    with u have "trust_in_range
        (trust (sample_user\<lparr>trust := (trust sample_user)\<lparr>identity_score := Some (JInt 999)\<rparr>\<rparr>))"
      unfolding scores_in_range_def by (elim allE impE) assumption
    then show False by (simp add: trust_in_range_def score_in_range_def)
  qed
  with sample_db_in_range stored show ?thesis by (intro conjI)
qed

section \<open>Properties of identity verification\<close>

lemma check_pan_Inr_iff:
  "(\<exists>m. check_pan d p n pin = Inr m) \<longleftrightarrow>
   (p = bypass_pan \<or>
    (case gov_records d p of
       None \<Rightarrow> False
     | Some g \<Rightarrow> verified g \<and> py_lower n = py_lower (name g) \<and> pin = phone g))"
  by (simp add: check_pan_def split: option.splits)

lemma identity_verdict_accepts:
  assumes "store_error e = None" and "pan \<noteq> []" and "nm \<noteq> []"
    and "check_pan d pan nm pin = Inr m"
  shows "code (fst (identity_verdict e d uid pin rs (Some pan) aad (Some nm) ph)) = 200 \<and>
         map_of (body (fst (identity_verdict e d uid pin rs (Some pan) aad (Some nm) ph)))
           ''pan_verified'' = Some (JBool True) \<and>
         map_of (body (fst (identity_verdict e d uid pin rs (Some pan) aad (Some nm) ph)))
           ''trust_score'' = Some (JInt (identity_trust_score True (truthy aad) ph pin (Some nm)))"
  using assms by (simp add: identity_verdict_def Let_def truthy_def)

lemma identity_verdict_rejects:
  assumes "store_error e = None" and "pan \<noteq> []" and "nm \<noteq> []"
    and "check_pan d pan nm pin = Inl r"
  shows "fst (identity_verdict e d uid pin rs (Some pan) aad (Some nm) ph) = r"
  using assms by (simp add: identity_verdict_def Let_def truthy_def)

lemma identity_verdict_not_extracted:
  assumes "\<not> truthy pan \<or> \<not> truthy nm"
  shows "code (fst (identity_verdict e d uid pin rs pan aad nm ph)) = 403"
  using assms by (simp add: identity_verdict_def error_response_def)

lemma verify_identity_documents_verdict:
  assumes "id_uid req = Some uid" "uid \<noteq> []" "id_phone req = Some pin" "pin \<noteq> []"
    and "extract_documents (id_documents req) = Inr rs" "rs \<noteq> []"
  shows "verify_identity_documents e d req =
         identity_verdict e d uid pin rs (pan_number_of (combined_text rs))
           (aadhaar_number_of (combined_text rs)) (name_extracted_of (combined_text rs))
           (phone_extracted_of (combined_text rs))"
proof -
  from assms(5,6) have "id_documents req \<noteq> []" by (rule extract_documents_Nil)
  with assms show ?thesis
    by (simp add: verify_identity_documents_def Let_def truthy_def)
qed

text \<open>
  Claim C5, as the code has it. For a request that names a user and a phone and has at
  least one readable document, with the store reachable, identity verification answers 403
  exactly when the PAN or the name cannot be extracted, or the PAN is not the bypass value
  and its government record is missing, is not marked verified, has a name that differs
  (ignoring case) from the extracted name, or has a phone that differs from the phone
  submitted with the request. A request answered with 403 leaves the store as it was, so
  no identity score is stored.
\<close>

theorem identity_rejection:
  assumes req: "id_uid req = Some uid" "uid \<noteq> []" "id_phone req = Some pin" "pin \<noteq> []"
    and files: "extract_documents (id_documents req) = Inr rs" "rs \<noteq> []"
    and store: "store_error e = None"
  shows "(code (fst (verify_identity_documents e d req)) = 403 \<longleftrightarrow>
           (case (pan_number_of (combined_text rs), name_extracted_of (combined_text rs)) of
              (Some p, Some n) \<Rightarrow>
                p = [] \<or> n = [] \<or>
                (p \<noteq> bypass_pan \<and>
                 (case gov_records d p of
                    None \<Rightarrow> True
                  | Some g \<Rightarrow> \<not> verified g \<or> py_lower n \<noteq> py_lower (name g) \<or>
                              pin \<noteq> phone g))
            | _ \<Rightarrow> True)) \<and>
         (code (fst (verify_identity_documents e d req)) = 403 \<longrightarrow>
            snd (verify_identity_documents e d req) = d)"
proof -
  let ?c = "combined_text rs"
  let ?pan = "pan_number_of ?c" and ?nm = "name_extracted_of ?c"
  let ?aad = "aadhaar_number_of ?c" and ?ph = "phone_extracted_of ?c"
  have eq: "verify_identity_documents e d req = identity_verdict e d uid pin rs ?pan ?aad ?nm ?ph"
    using req files by (rule verify_identity_documents_verdict)
  have unchanged: "snd (verify_identity_documents e d req) = d"
    if "code (fst (verify_identity_documents e d req)) = 403"
    using identity_store [of e d req] that by auto
  have iff: "code (fst (identity_verdict e d uid pin rs ?pan ?aad ?nm ?ph)) = 403 \<longleftrightarrow>
           (case (?pan, ?nm) of
              (Some p, Some n) \<Rightarrow>
                p = [] \<or> n = [] \<or>
                (p \<noteq> bypass_pan \<and>
                 (case gov_records d p of
                    None \<Rightarrow> True
                  | Some g \<Rightarrow> \<not> verified g \<or> py_lower n \<noteq> py_lower (name g) \<or>
                              pin \<noteq> phone g))
            | _ \<Rightarrow> True)"
  proof (cases "truthy ?pan \<and> truthy ?nm")
    case False
    then have "code (fst (identity_verdict e d uid pin rs ?pan ?aad ?nm ?ph)) = 403"
      by (intro identity_verdict_not_extracted) simp
    with False show ?thesis
      by (auto simp add: truthy_def split: option.splits)
  next
    case True
    then obtain p n where p: "?pan = Some p" "p \<noteq> []" and n: "?nm = Some n" "n \<noteq> []"
      by (auto simp add: truthy_def split: option.splits)
    show ?thesis
    proof (cases "check_pan d p n pin")
      case (Inl r)
      then have "\<not> (\<exists>m. check_pan d p n pin = Inr m)" by simp
      then have rej: "p \<noteq> bypass_pan \<and>
          (case gov_records d p of None \<Rightarrow> True
           | Some g \<Rightarrow> \<not> verified g \<or> py_lower n \<noteq> py_lower (name g) \<or> pin \<noteq> phone g)"
        unfolding check_pan_Inr_iff by (simp split: option.splits)
      from identity_verdict_rejects [OF store p(2) n(2) Inl] check_pan_rejection [OF Inl]
      have "code (fst (identity_verdict e d uid pin rs (Some p) ?aad (Some n) ?ph)) = 403"
        by simp
      with p n rej show ?thesis by simp
    next
      case (Inr m)
      then have "\<exists>m. check_pan d p n pin = Inr m" by blast
      then have acc: "p = bypass_pan \<or>
          (case gov_records d p of None \<Rightarrow> False
           | Some g \<Rightarrow> verified g \<and> py_lower n = py_lower (name g) \<and> pin = phone g)"
        unfolding check_pan_Inr_iff .
      from identity_verdict_accepts [OF store p(2) n(2) Inr]
      have "code (fst (identity_verdict e d uid pin rs (Some p) ?aad (Some n) ?ph)) = 200"
        by blast
      with p n acc show ?thesis by (auto split: option.splits)
    qed
  qed
  from eq iff unchanged show ?thesis by simp
qed

text \<open>
  A card whose name matches the government record, sent with a phone that is not the
  record's, is rejected and nothing is stored.
\<close>

theorem identity_rejection_witness:
  "code (fst (verify_identity_documents sample_env sample_db
      (identity_sample ''ABCDE1234F'' ''9876543210'' ''1111111111''))) = 403 \<and>
   snd (verify_identity_documents sample_env sample_db
      (identity_sample ''ABCDE1234F'' ''9876543210'' ''1111111111'')) = sample_db"
proof -
  let ?req = "identity_sample ''ABCDE1234F'' ''9876543210'' ''1111111111''"
  let ?rs = "[(''card.png'', card_text ''ABCDE1234F'' ''9876543210'')]"
  have a: "id_uid ?req = Some ''u1''" "''u1'' \<noteq> []" by (simp_all add: identity_sample_def)
  have b: "id_phone ?req = Some ''1111111111''" "''1111111111'' \<noteq> []"
    by (simp_all add: identity_sample_def)
  have c: "extract_documents (id_documents ?req) = Inr ?rs" by code_simp
  have d: "?rs \<noteq> []" by simp
  have s: "store_error sample_env = None" by (simp add: sample_env_def)
  have p: "pan_number_of (combined_text ?rs) = Some ''ABCDE1234F''" by code_simp
  have n: "name_extracted_of (combined_text ?rs) = Some ''Alice Roy''" by code_simp
  have g: "gov_records sample_db ''ABCDE1234F'' =
      Some \<lparr>verified = True, name = ''ALICE ROY'', phone = ''9876543210''\<rparr>"
    by (simp add: sample_db_def)
  have byp: "''ABCDE1234F'' \<noteq> bypass_pan" by (simp add: bypass_pan_def)
  from identity_rejection [OF a b c d s, of sample_db] p n g byp
  show ?thesis by simp
qed

text \<open>
  Claim C5 as stated fails in both directions. With the bypass PAN the extracted name
  and phone differ from the record filed under that PAN, and the request is accepted and
  a score of 100 stored. With a record that is not marked verified the extracted name
  and phone match the record, and the request is rejected. With an extracted phone that
  differs from the record's the request is accepted, because the phone compared with the
  record is the one submitted with the request.
\<close>

theorem evidence_mismatch_is_not_the_rejection:
  "pan_number_of (card_text ''EMPPG7988Q'' ''1234567890'') = Some ''EMPPG7988Q'' \<and>
   name_extracted_of (card_text ''EMPPG7988Q'' ''1234567890'') = Some ''Alice Roy'' \<and>
   phone_extracted_of (card_text ''EMPPG7988Q'' ''1234567890'') = Some ''1234567890'' \<and>
   evidence_mismatch sample_db (Some ''EMPPG7988Q'') (Some ''Alice Roy'') (Some ''1234567890'') \<and>
   code (fst (verify_identity_documents sample_env sample_db
      (identity_sample ''EMPPG7988Q'' ''1234567890'' ''1234567890''))) = 200 \<and>
   map_option (identity_score \<circ> trust)
     (users (snd (verify_identity_documents sample_env sample_db
        (identity_sample ''EMPPG7988Q'' ''1234567890'' ''1234567890''))) ''u1'') =
     Some (Some (JInt 100)) \<and>
   pan_number_of (card_text ''PQRST5678U'' ''9876543210'') = Some ''PQRST5678U'' \<and>
   name_extracted_of (card_text ''PQRST5678U'' ''9876543210'') = Some ''Alice Roy'' \<and>
   phone_extracted_of (card_text ''PQRST5678U'' ''9876543210'') = Some ''9876543210'' \<and>
   \<not> evidence_mismatch sample_db (Some ''PQRST5678U'') (Some ''Alice Roy'') (Some ''9876543210'') \<and>
   code (fst (verify_identity_documents sample_env sample_db
      (identity_sample ''PQRST5678U'' ''9876543210'' ''9876543210''))) = 403 \<and>
   pan_number_of (card_text ''ABCDE1234F'' ''1111111111'') = Some ''ABCDE1234F'' \<and>
   name_extracted_of (card_text ''ABCDE1234F'' ''1111111111'') = Some ''Alice Roy'' \<and>
   phone_extracted_of (card_text ''ABCDE1234F'' ''1111111111'') = Some ''1111111111'' \<and>
   evidence_mismatch sample_db (Some ''ABCDE1234F'') (Some ''Alice Roy'') (Some ''1111111111'') \<and>
   code (fst (verify_identity_documents sample_env sample_db
      (identity_sample ''ABCDE1234F'' ''1111111111'' ''9876543210''))) = 200"
  by (intro conjI; code_simp)

lemma merge_trust_gov_records:
  "merge_trust (d\<lparr>gov_records := g\<rparr>) uid f = (merge_trust d uid f)\<lparr>gov_records := g\<rparr>"
  by (simp add: merge_trust_def Let_def)

lemma bypass_score_at_least_50:
  "nm \<noteq> [] \<Longrightarrow> 50 \<le> identity_trust_score True av ph pin (Some nm)"
  by (simp add: identity_trust_score_def Let_def truthy_def)

lemma identity_verdict_bypass:
  assumes "store_error e = None" and "nm \<noteq> []"
  shows "identity_verdict e d uid pin rs (Some bypass_pan) aad (Some nm) ph =
     (\<lparr>code = 200,
       body = [(''trust_score'', JInt (identity_trust_score True (truthy aad) ph pin (Some nm))),
               (''aadhaar_verified'', JBool (truthy aad)),
               (''aadhaar_number'', json_opt aad),
               (''pan_verified'', JBool True),
               (''pan_number'', json_opt (Some bypass_pan)),
               (''phone_provided'', JStr pin),
               (''phone_extracted'', json_opt ph),
               (''name_extracted'', json_opt (Some nm)),
               (''results'', results_json rs),
               (''message'', JStr ''Identity verification completed successfully.'')]\<rparr>,
      merge_trust d uid (\<lambda>t. t\<lparr>identity_score :=
          Some (JInt (identity_trust_score True (truthy aad) ph pin (Some nm))),
        identity_verified_at := Some (server_timestamp e),
        identity_history := [\<lparr>score = identity_trust_score True (truthy aad) ph pin (Some nm),
           reason = ''Identity verification completed. PAN Verified: '' @ py_bool_str True @
                    '', Aadhaar Present: '' @ py_bool_str (truthy aad),
           date = now_iso e\<rparr>]\<rparr>))"
proof -
  have b: "bypass_pan \<noteq> []" by (simp add: bypass_pan_def)
  have c: "check_pan d bypass_pan nm pin = Inr ''PAN bypass code detected.''"
    by (simp add: check_pan_def)
  from assms b c show ?thesis
    by (simp add: identity_verdict_def Let_def truthy_def)
qed

text \<open>
  Claim C6. For a request that names a user and a phone and has at least one readable
  document, with the store reachable: when the extracted PAN is the bypass value and a name
  is extracted, the handler answers 200 with \<open>pan_verified\<close> true and a score of at least
  50, which it stores; and it makes no use of the government records, the response and the
  stored documents being the same whatever records the store holds.
\<close>

theorem bypass_pan_skips_lookup:
  assumes req: "id_uid req = Some uid" "uid \<noteq> []" "id_phone req = Some pin" "pin \<noteq> []"
    and files: "extract_documents (id_documents req) = Inr rs" "rs \<noteq> []"
    and store: "store_error e = None"
    and pan: "pan_number_of (combined_text rs) = Some bypass_pan"
    and nm: "truthy (name_extracted_of (combined_text rs))"
  shows "code (fst (verify_identity_documents e d req)) = 200 \<and>
         map_of (body (fst (verify_identity_documents e d req))) ''pan_verified'' =
           Some (JBool True) \<and>
         (\<exists>n. map_of (body (fst (verify_identity_documents e d req))) ''trust_score'' =
                 Some (JInt n) \<and> 50 \<le> n \<and>
               map_option (identity_score \<circ> trust)
                 (users (snd (verify_identity_documents e d req)) uid) = Some (Some (JInt n))) \<and>
         (\<forall>g. verify_identity_documents e (d\<lparr>gov_records := g\<rparr>) req =
                (fst (verify_identity_documents e d req),
                 (snd (verify_identity_documents e d req))\<lparr>gov_records := g\<rparr>))"
proof -
  let ?c = "combined_text rs"
  from nm obtain n where n: "name_extracted_of ?c = Some n" "n \<noteq> []"
    by (auto simp add: truthy_def split: option.splits)
  let ?s = "identity_trust_score True (truthy (aadhaar_number_of ?c)) (phone_extracted_of ?c)
              pin (Some n)"
  have eq: "verify_identity_documents e d' req =
      identity_verdict e d' uid pin rs (Some bypass_pan) (aadhaar_number_of ?c) (Some n)
        (phone_extracted_of ?c)" for d'
    using verify_identity_documents_verdict [OF req files, of e d'] pan n by simp
  note v = identity_verdict_bypass [OF store n(2), of _ uid pin rs "aadhaar_number_of ?c"
      "phone_extracted_of ?c"]
  have "code (fst (verify_identity_documents e d req)) = 200"
    unfolding eq v by simp
  moreover have "map_of (body (fst (verify_identity_documents e d req))) ''pan_verified'' =
      Some (JBool True)"
    unfolding eq v by simp
  moreover have "map_of (body (fst (verify_identity_documents e d req))) ''trust_score'' =
      Some (JInt ?s)"
    unfolding eq v by simp
  moreover have "50 \<le> ?s" using n(2) by (rule bypass_score_at_least_50)
  moreover have "map_option (identity_score \<circ> trust)
      (users (snd (verify_identity_documents e d req)) uid) = Some (Some (JInt ?s))"
    unfolding eq v by (simp add: users_merge_trust)
  moreover have "verify_identity_documents e (d\<lparr>gov_records := g\<rparr>) req =
      (fst (verify_identity_documents e d req),
       (snd (verify_identity_documents e d req))\<lparr>gov_records := g\<rparr>)" for g
    unfolding eq v by (simp add: merge_trust_gov_records)
  ultimately show ?thesis by blast
qed

theorem bypass_pan_skips_lookup_witness:
  "code (fst (verify_identity_documents sample_env sample_db
      (identity_sample ''EMPPG7988Q'' ''1234567890'' ''1234567890''))) = 200 \<and>
   map_of (body (fst (verify_identity_documents sample_env sample_db
      (identity_sample ''EMPPG7988Q'' ''1234567890'' ''1234567890'')))) ''pan_verified'' =
     Some (JBool True) \<and>
   map_of (body (fst (verify_identity_documents sample_env sample_db
      (identity_sample ''EMPPG7988Q'' ''1234567890'' ''1234567890'')))) ''trust_score'' =
     Some (JInt 100) \<and>
   fst (verify_identity_documents sample_env (sample_db\<lparr>gov_records := Map.empty\<rparr>)
      (identity_sample ''EMPPG7988Q'' ''1234567890'' ''1234567890'')) =
   fst (verify_identity_documents sample_env sample_db
      (identity_sample ''EMPPG7988Q'' ''1234567890'' ''1234567890''))"
proof -
  let ?req = "identity_sample ''EMPPG7988Q'' ''1234567890'' ''1234567890''"
  let ?rs = "[(''card.png'', card_text ''EMPPG7988Q'' ''1234567890'')]"
  have a: "id_uid ?req = Some ''u1''" "''u1'' \<noteq> []" by (simp_all add: identity_sample_def)
  have b: "id_phone ?req = Some ''1234567890''" "''1234567890'' \<noteq> []"
    by (simp_all add: identity_sample_def)
  have c: "extract_documents (id_documents ?req) = Inr ?rs" by code_simp
  have d: "?rs \<noteq> []" by simp
  have s: "store_error sample_env = None" by (simp add: sample_env_def)
  have p: "pan_number_of (combined_text ?rs) = Some bypass_pan" by code_simp
  have n: "truthy (name_extracted_of (combined_text ?rs))" by code_simp
  have t: "map_of (body (fst (verify_identity_documents sample_env sample_db ?req)))
      ''trust_score'' = Some (JInt 100)" by code_simp
  from bypass_pan_skips_lookup [OF a b c d s p n, of sample_db] t
  show ?thesis by simp
qed

section \<open>Properties of loan decisions\<close>

lemma loan_decision_loans:
  "loans (snd (loan_decision e d uid loan_id data)) k =
     (if code (fst (loan_decision e d uid loan_id data)) = 200 \<and> k = (uid, loan_id)
      then map_option (\<lambda>l. l\<lparr>status := (case dict_get data ''decision'' of JStr s \<Rightarrow> s | _ \<Rightarrow> [])\<rparr>)
             (loans d k)
      else loans d k)"
  by (auto simp add: loan_decision_def decision_invalid_def error_response_def
      decision_failure_def split: jvalue.splits option.splits)

lemma loan_decision_ok:
  "code (fst (loan_decision e d uid loan_id data)) = 200 \<longleftrightarrow>
     (\<exists>s. dict_get data ''decision'' = JStr s \<and> (s = ''approved'' \<or> s = ''rejected'')) \<and>
     store_error e = None \<and> loans d (uid, loan_id) \<noteq> None"
  by (auto simp add: loan_decision_def decision_invalid_def error_response_def
      decision_failure_def split: jvalue.splits option.splits)


lemma loan_decision_status:
  assumes "loans d k = Some l"
  shows "\<exists>l'. loans (snd (loan_decision e d uid loan_id data)) k = Some l' \<and>
           (status l' = status l \<or> status l' = ''approved'' \<or> status l' = ''rejected'')"
proof (cases "code (fst (loan_decision e d uid loan_id data)) = 200 \<and> k = (uid, loan_id)")
  case False
  then have "loans (snd (loan_decision e d uid loan_id data)) k = loans d k"
    by (subst loan_decision_loans) (simp only: if_False)
  with assms show ?thesis by simp
next
  case True
  then obtain s where s: "dict_get data ''decision'' = JStr s" "s = ''approved'' \<or> s = ''rejected''"
    unfolding loan_decision_ok by blast
  from True assms s(1) have "loans (snd (loan_decision e d uid loan_id data)) k =
      Some (l\<lparr>status := s\<rparr>)"
    by (simp add: loan_decision_loans)
  with s(2) show ?thesis by auto
qed

lemma decide_all_status:
  "loans d k = Some l \<Longrightarrow>
   \<exists>l'. loans (decide_all d calls) k = Some l' \<and>
        (status l' = status l \<or> status l' = ''approved'' \<or> status l' = ''rejected'')"
proof (induction calls arbitrary: d l)
  case Nil
  then show ?case by simp
next
  case (Cons c calls)
  obtain e uid loan_id data where c: "c = (e, uid, loan_id, data)" by (cases c)
  from loan_decision_status [OF Cons.prems, of e uid loan_id data]
  obtain l1 where l1: "loans (snd (loan_decision e d uid loan_id data)) k = Some l1"
    and s1: "status l1 = status l \<or> status l1 = ''approved'' \<or> status l1 = ''rejected''"
    by blast
  from Cons.IH [OF l1]
  obtain l' where l': "loans (decide_all (snd (loan_decision e d uid loan_id data)) calls) k = Some l'"
    and s': "status l' = status l1 \<or> status l' = ''approved'' \<or> status l' = ''rejected''"
    by blast
  from l' c have "loans (decide_all d (c # calls)) k = Some l'" by simp
  moreover from s1 s' have "status l' = status l \<or> status l' = ''approved'' \<or> status l' = ''rejected''"
    by auto
  ultimately show ?case by blast
qed

text \<open>
  Claim C9, as the code has it. A decision call answered with 200 sets the status of its
  loan to the decision it carries, \<open>approved\<close> or \<open>rejected\<close>, whatever the status was.
  So after any sequence of decision calls the status of a loan is what it was before, or
  \<open>approved\<close>, or \<open>rejected\<close>: a loan that is not pending never becomes pending again.
\<close>

theorem decisions_never_restore_pending:
  "(code (fst (loan_decision e d uid loan_id data)) = 200 \<longrightarrow>
      (\<exists>s l. dict_get data ''decision'' = JStr s \<and> (s = ''approved'' \<or> s = ''rejected'') \<and>
         loans d (uid, loan_id) = Some l \<and>
         loans (snd (loan_decision e d uid loan_id data)) (uid, loan_id) =
           Some (l\<lparr>status := s\<rparr>))) \<and>
   (loans d k = Some l \<longrightarrow>
      (\<exists>l'. loans (decide_all d calls) k = Some l' \<and>
         (status l' = status l \<or> status l' = ''approved'' \<or> status l' = ''rejected'') \<and>
         (status l \<noteq> ''pending'' \<longrightarrow> status l' \<noteq> ''pending'')))"
proof (intro conjI impI)
  assume ok: "code (fst (loan_decision e d uid loan_id data)) = 200"
  then obtain s l0 where s: "dict_get data ''decision'' = JStr s"
      "s = ''approved'' \<or> s = ''rejected''" and l0: "loans d (uid, loan_id) = Some l0"
    unfolding loan_decision_ok by blast
  from ok s(1) l0 have "loans (snd (loan_decision e d uid loan_id data)) (uid, loan_id) =
      Some (l0\<lparr>status := s\<rparr>)"
    by (simp add: loan_decision_loans)
  with s l0 show "\<exists>s l. dict_get data ''decision'' = JStr s \<and>
      (s = ''approved'' \<or> s = ''rejected'') \<and> loans d (uid, loan_id) = Some l \<and>
      loans (snd (loan_decision e d uid loan_id data)) (uid, loan_id) = Some (l\<lparr>status := s\<rparr>)"
    by blast
next
  assume "loans d k = Some l"
  from decide_all_status [OF this, of calls]
  obtain l' where l': "loans (decide_all d calls) k = Some l'"
    and s: "status l' = status l \<or> status l' = ''approved'' \<or> status l' = ''rejected''"
    by blast
  from s have "status l \<noteq> ''pending'' \<longrightarrow> status l' \<noteq> ''pending''" by auto
  with l' s show "\<exists>l'. loans (decide_all d calls) k = Some l' \<and>
         (status l' = status l \<or> status l' = ''approved'' \<or> status l' = ''rejected'') \<and>
         (status l \<noteq> ''pending'' \<longrightarrow> status l' \<noteq> ''pending'')"
    by blast
qed

text \<open>
  Three calls on the rejected sample loan: the second carries \<open>pending\<close> and is refused
  with 400.
\<close>

theorem decisions_never_restore_pending_witness:
  "code (fst (loan_decision sample_env sample_db ''u1'' ''L1'' [''decision'' \<mapsto> JStr ''approved''])) = 200 \<and>
   map_option status (loans (decide_all sample_db
      [(sample_env, ''u1'', ''L1'', [''decision'' \<mapsto> JStr ''approved'']),
       (sample_env, ''u1'', ''L1'', [''decision'' \<mapsto> JStr ''pending'']),
       (sample_env, ''u1'', ''L1'', [''decision'' \<mapsto> JStr ''rejected''])]) (''u1'', ''L1'')) = Some ''rejected'' \<and>
   (\<exists>l'. loans (decide_all sample_db
      [(sample_env, ''u1'', ''L1'', [''decision'' \<mapsto> JStr ''approved'']),
       (sample_env, ''u1'', ''L1'', [''decision'' \<mapsto> JStr ''pending'']),
       (sample_env, ''u1'', ''L1'', [''decision'' \<mapsto> JStr ''rejected''])]) (''u1'', ''L1'') = Some l' \<and>
      status l' \<noteq> ''pending'')"
proof -
  let ?calls = "[(sample_env, ''u1'', ''L1'', [''decision'' \<mapsto> JStr ''approved'']),
       (sample_env, ''u1'', ''L1'', [''decision'' \<mapsto> JStr ''pending'']),
       (sample_env, ''u1'', ''L1'', [''decision'' \<mapsto> JStr ''rejected''])]"
  have ok: "code (fst (loan_decision sample_env sample_db ''u1'' ''L1''
      [''decision'' \<mapsto> JStr ''approved''])) = 200" by code_simp
  have st: "map_option status (loans (decide_all sample_db ?calls) (''u1'', ''L1'')) =
      Some ''rejected''" by code_simp
  have l: "loans sample_db (''u1'', ''L1'') = Some sample_loan" by (simp add: sample_db_def)
  have np: "status sample_loan \<noteq> ''pending''" by (simp add: sample_loan_def)
  from decisions_never_restore_pending [of sample_env sample_db "''u1''" "''L1''"
      "[''decision'' \<mapsto> JStr ''approved'']" "(''u1'', ''L1'')" sample_loan ?calls] l np
  have "\<exists>l'. loans (decide_all sample_db ?calls) (''u1'', ''L1'') = Some l' \<and>
      status l' \<noteq> ''pending''"
    by blast
  with ok st show ?thesis by (intro conjI)
qed

text \<open>
  Claim C9 as stated, that no decision call moves a loan out of \<open>rejected\<close> to
  \<open>approved\<close>, fails: the handler does not look at the current status.
\<close>

theorem rejected_loan_becomes_approved:
  "map_option status (loans sample_db (''u1'', ''L1'')) = Some ''rejected'' \<and>
   code (fst (loan_decision sample_env sample_db ''u1'' ''L1''
      [''decision'' \<mapsto> JStr ''approved''])) = 200 \<and>
   map_option status (loans (snd (loan_decision sample_env sample_db ''u1'' ''L1''
      [''decision'' \<mapsto> JStr ''approved''])) (''u1'', ''L1'')) = Some ''approved''"
  by (intro conjI; code_simp)

section \<open>Properties of loan requests\<close>

lemma dict_of_None_iff: "dict_of members k = None \<longleftrightarrow> k \<notin> fst ` set members"
  by (simp add: dict_of_def map_of_eq_None_iff)

text \<open>
  A body that is no container, and an integer amount too large for a double, end in an
  exception that the handler does not catch.
\<close>

lemma loan_request_uncaught:
  "loan_request host_float e d JNull = (internal_server_error, d)"
  "\<forall>field \<in> set required_fields. field \<in> fst ` set members \<Longrightarrow>
   py_float host_float (dict_get (dict_of members) ''amount'') = FloatOverflow \<Longrightarrow>
   loan_request host_float e d (JObj members) = (internal_server_error, d)"
  by (auto simp add: loan_request_def Let_def dict_of_None_iff)

text \<open>
  Claim C8, as the code has it. A loan request whose body is a JSON object is answered
  with 400, and stores nothing, when a required field is missing, when \<open>float\<close> rejects
  the amount with \<open>ValueError\<close> or \<open>TypeError\<close>, and when the amount is a number that is
  zero or below. When all fields are present, the amount is a finite number above zero,
  the \<open>uid\<close> is a string and the store can be reached, it is answered with 200 and the one
  field \<open>status\<close>, and a pending loan is stored under the identifier the store generates;
  the response does not depend on that identifier.
\<close>

theorem loan_request_outcomes:
  "((\<exists>field \<in> set required_fields. field \<notin> fst ` set members) \<longrightarrow>
      loan_request host_float e d (JObj members) =
        (error_response 400 ''Missing required fields'', d)) \<and>
   ((\<forall>field \<in> set required_fields. field \<in> fst ` set members) \<and>
    py_float host_float (dict_get (dict_of members) ''amount'') = FloatError \<longrightarrow>
      loan_request host_float e d (JObj members) = (error_response 400 ''Invalid amount'', d)) \<and>
   ((\<forall>field \<in> set required_fields. field \<in> fst ` set members) \<and>
    py_float host_float (dict_get (dict_of members) ''amount'') = FloatValue x \<and>
    float_le_zero x \<longrightarrow>
      loan_request host_float e d (JObj members) =
        (error_response 400 ''Amount must be positive'', d)) \<and>
   ((\<forall>field \<in> set required_fields. field \<in> fst ` set members) \<and>
    py_float host_float (dict_get (dict_of members) ''amount'') = FloatValue (Finite a) \<and>
    0 < a \<and> dict_get (dict_of members) ''uid'' = JStr uid \<and> store_error e = None \<longrightarrow>
      loan_request host_float e d (JObj members) =
        (\<lparr>code = 200, body = [(''status'', JStr ''loan request submitted'')]\<rparr>,
         d\<lparr>loans := (loans d)((uid, auto_id e) \<mapsto>
              \<lparr>amount = Finite a, purpose = dict_get (dict_of members) ''purpose'',
               timestamp = server_timestamp e, due_date = now e + 30 * 86400,
               status = ''pending'', wallet = dict_get (dict_of members) ''wallet'',
               documents_released = False\<rparr>)\<rparr>))"
proof (intro conjI impI)
  assume "\<exists>field \<in> set required_fields. field \<notin> fst ` set members"
  then have "\<not> (\<forall>field \<in> set required_fields. dict_of members field \<noteq> None)"
    by (simp add: dict_of_None_iff)
  then show "loan_request host_float e d (JObj members) =
      (error_response 400 ''Missing required fields'', d)"
    by (auto simp add: loan_request_def Let_def)
next
  assume a: "(\<forall>field \<in> set required_fields. field \<in> fst ` set members) \<and>
    py_float host_float (dict_get (dict_of members) ''amount'') = FloatError"
  then have "\<forall>field \<in> set required_fields. dict_of members field \<noteq> None"
    by (simp add: dict_of_None_iff)
  with a show "loan_request host_float e d (JObj members) =
      (error_response 400 ''Invalid amount'', d)"
    by (auto simp add: loan_request_def Let_def)
next
  assume a: "(\<forall>field \<in> set required_fields. field \<in> fst ` set members) \<and>
    py_float host_float (dict_get (dict_of members) ''amount'') = FloatValue x \<and>
    float_le_zero x"
  then have "\<forall>field \<in> set required_fields. dict_of members field \<noteq> None"
    by (simp add: dict_of_None_iff)
  with a show "loan_request host_float e d (JObj members) =
      (error_response 400 ''Amount must be positive'', d)"
    by (auto simp add: loan_request_def Let_def)
next
  assume a: "(\<forall>field \<in> set required_fields. field \<in> fst ` set members) \<and>
    py_float host_float (dict_get (dict_of members) ''amount'') = FloatValue (Finite a) \<and>
    0 < a \<and> dict_get (dict_of members) ''uid'' = JStr uid \<and> store_error e = None"
  then have f: "\<forall>field \<in> set required_fields. dict_of members field \<noteq> None"
    by (simp add: dict_of_None_iff)
  from a have "\<not> float_le_zero (Finite a)" by (simp add: float_le_zero_def)
  with a f show "loan_request host_float e d (JObj members) =
        (\<lparr>code = 200, body = [(''status'', JStr ''loan request submitted'')]\<rparr>,
         d\<lparr>loans := (loans d)((uid, auto_id e) \<mapsto>
              \<lparr>amount = Finite a, purpose = dict_get (dict_of members) ''purpose'',
               timestamp = server_timestamp e, due_date = now e + 30 * 86400,
               status = ''pending'', wallet = dict_get (dict_of members) ''wallet'',
               documents_released = False\<rparr>)\<rparr>)"
    by (auto simp add: loan_request_def Let_def)
qed

theorem loan_request_outcomes_witness:
  "loan_request (\<lambda>_. FloatError) sample_env sample_db (JObj [(''uid'', JStr ''u2'')]) =
     (error_response 400 ''Missing required fields'', sample_db) \<and>
   loan_request (\<lambda>_. FloatError) sample_env sample_db (loan_sample (JStr ''much'')) =
     (error_response 400 ''Invalid amount'', sample_db) \<and>
   loan_request (\<lambda>_. FloatError) sample_env sample_db (loan_sample (JInt (- 5))) =
     (error_response 400 ''Amount must be positive'', sample_db) \<and>
   fst (loan_request (\<lambda>_. FloatError) sample_env sample_db (loan_sample (JInt 5000))) =
     \<lparr>code = 200, body = [(''status'', JStr ''loan request submitted'')]\<rparr> \<and>
   map_option (\<lambda>l. (amount l, status l))
     (loans (snd (loan_request (\<lambda>_. FloatError) sample_env sample_db (loan_sample (JInt 5000))))
        (''u2'', ''L1'')) = Some (Finite 5000, ''pending'')"
proof -
  let ?h = "\<lambda>_::jvalue. FloatError"
  let ?m = "\<lambda>amt. [(''uid'', JStr ''u2''), (''amount'', amt), (''purpose'', JStr ''seeds''),
                   (''wallet'', JStr ''0xabc'')]"
  have sample: "loan_sample amt = JObj (?m amt)" for amt by (simp add: loan_sample_def)
  have all: "\<forall>field \<in> set required_fields. field \<in> fst ` set (?m amt)" for amt
    by (simp add: required_fields_def)
  have get: "dict_get (dict_of (?m amt)) ''amount'' = amt"
    "dict_get (dict_of (?m amt)) ''uid'' = JStr ''u2''" for amt
    by (simp_all add: dict_get_def dict_of_def)
  have m: "\<exists>field \<in> set required_fields. field \<notin> fst ` set [(''uid'', JStr ''u2'')]"
    by (simp add: required_fields_def)
  have i: "py_float ?h (dict_get (dict_of (?m (JStr ''much''))) ''amount'') = FloatError"
    unfolding get by (simp add: py_float_def)
  have n: "py_float ?h (dict_get (dict_of (?m (JInt (- 5)))) ''amount'') = FloatValue (Finite (- 5))"
    "float_le_zero (Finite (- 5))"
    unfolding get by (simp_all add: py_float_def float_le_zero_def)
  have p: "py_float ?h (dict_get (dict_of (?m (JInt 5000))) ''amount'') = FloatValue (Finite 5000)"
    "(0 :: real) < 5000"
    unfolding get by (simp_all add: py_float_def)
  have s: "store_error sample_env = None" "auto_id sample_env = ''L1''"
    by (simp_all add: sample_env_def)
  from loan_request_outcomes [of "[(''uid'', JStr ''u2'')]" ?h sample_env sample_db]
  have "(\<exists>field \<in> set required_fields. field \<notin> fst ` set [(''uid'', JStr ''u2'')]) \<longrightarrow>
      loan_request ?h sample_env sample_db (JObj [(''uid'', JStr ''u2'')]) =
        (error_response 400 ''Missing required fields'', sample_db)"
    by (rule conjunct1)
  then have a: "loan_request ?h sample_env sample_db (JObj [(''uid'', JStr ''u2'')]) =
     (error_response 400 ''Missing required fields'', sample_db)"
    using m by (rule mp)
  from loan_request_outcomes [of "?m (JStr ''much'')" ?h sample_env sample_db]
  have "(\<forall>field \<in> set required_fields. field \<in> fst ` set (?m (JStr ''much''))) \<and>
      py_float ?h (dict_get (dict_of (?m (JStr ''much''))) ''amount'') = FloatError \<longrightarrow>
      loan_request ?h sample_env sample_db (JObj (?m (JStr ''much''))) =
        (error_response 400 ''Invalid amount'', sample_db)"
    by (rule conjunct2 [THEN conjunct1])
  moreover have "(\<forall>field \<in> set required_fields. field \<in> fst ` set (?m (JStr ''much''))) \<and>
      py_float ?h (dict_get (dict_of (?m (JStr ''much''))) ''amount'') = FloatError"
    by (intro conjI all i)
  ultimately have b: "loan_request ?h sample_env sample_db (loan_sample (JStr ''much'')) =
     (error_response 400 ''Invalid amount'', sample_db)"
    unfolding sample by (rule mp)
  from loan_request_outcomes [of "?m (JInt (- 5))" ?h sample_env sample_db "Finite (- 5)"]
  have "(\<forall>field \<in> set required_fields. field \<in> fst ` set (?m (JInt (- 5)))) \<and>
      py_float ?h (dict_get (dict_of (?m (JInt (- 5)))) ''amount'') = FloatValue (Finite (- 5)) \<and>
      float_le_zero (Finite (- 5)) \<longrightarrow>
      loan_request ?h sample_env sample_db (JObj (?m (JInt (- 5)))) =
        (error_response 400 ''Amount must be positive'', sample_db)"
    by (rule conjunct2 [THEN conjunct2, THEN conjunct1])
  moreover have "(\<forall>field \<in> set required_fields. field \<in> fst ` set (?m (JInt (- 5)))) \<and>
      py_float ?h (dict_get (dict_of (?m (JInt (- 5)))) ''amount'') = FloatValue (Finite (- 5)) \<and>
      float_le_zero (Finite (- 5))"
    by (intro conjI all n)
  ultimately have c: "loan_request ?h sample_env sample_db (loan_sample (JInt (- 5))) =
     (error_response 400 ''Amount must be positive'', sample_db)"
    unfolding sample by (rule mp)
  from loan_request_outcomes [of "?m (JInt 5000)" ?h sample_env sample_db _ 5000 "''u2''"]
  have "(\<forall>field \<in> set required_fields. field \<in> fst ` set (?m (JInt 5000))) \<and>
      py_float ?h (dict_get (dict_of (?m (JInt 5000))) ''amount'') = FloatValue (Finite 5000) \<and>
      0 < (5000 :: real) \<and> dict_get (dict_of (?m (JInt 5000))) ''uid'' = JStr ''u2'' \<and>
      store_error sample_env = None \<longrightarrow>
      loan_request ?h sample_env sample_db (JObj (?m (JInt 5000))) =
        (\<lparr>code = 200, body = [(''status'', JStr ''loan request submitted'')]\<rparr>,
         sample_db\<lparr>loans := (loans sample_db)((''u2'', auto_id sample_env) \<mapsto>
              \<lparr>amount = Finite 5000, purpose = dict_get (dict_of (?m (JInt 5000))) ''purpose'',
               timestamp = server_timestamp sample_env,
               due_date = now sample_env + 30 * 86400,
               status = ''pending'', wallet = dict_get (dict_of (?m (JInt 5000))) ''wallet'',
               documents_released = False\<rparr>)\<rparr>)"
    by (rule conjunct2 [THEN conjunct2, THEN conjunct2])
  moreover have "(\<forall>field \<in> set required_fields. field \<in> fst ` set (?m (JInt 5000))) \<and>
      py_float ?h (dict_get (dict_of (?m (JInt 5000))) ''amount'') = FloatValue (Finite 5000) \<and>
      0 < (5000 :: real) \<and> dict_get (dict_of (?m (JInt 5000))) ''uid'' = JStr ''u2'' \<and>
      store_error sample_env = None"
    by (intro conjI all p get(2) s(1))
  ultimately
  have "loan_request ?h sample_env sample_db (loan_sample (JInt 5000)) =
        (\<lparr>code = 200, body = [(''status'', JStr ''loan request submitted'')]\<rparr>,
         sample_db\<lparr>loans := (loans sample_db)((''u2'', auto_id sample_env) \<mapsto>
              \<lparr>amount = Finite 5000, purpose = dict_get (dict_of (?m (JInt 5000))) ''purpose'',
               timestamp = server_timestamp sample_env,
               due_date = now sample_env + 30 * 86400,
               status = ''pending'', wallet = dict_get (dict_of (?m (JInt 5000))) ''wallet'',
               documents_released = False\<rparr>)\<rparr>)"
    unfolding sample by (rule mp)
  then have d: "fst (loan_request ?h sample_env sample_db (loan_sample (JInt 5000))) =
     \<lparr>code = 200, body = [(''status'', JStr ''loan request submitted'')]\<rparr>"
    and e: "map_option (\<lambda>l. (amount l, status l))
     (loans (snd (loan_request ?h sample_env sample_db (loan_sample (JInt 5000))))
        (''u2'', ''L1'')) = Some (Finite 5000, ''pending'')"
    using s(2) by simp_all
  from a b c d e show ?thesis by (intro conjI)
qed

text \<open>
  Claim C8 as stated, that the 200 response carries the generated loan identifier,
  fails: the loan is stored under \<open>L1\<close> and no field of the response holds \<open>L1\<close>.
\<close>

theorem loan_response_lacks_identifier:
  "code (fst (loan_request (\<lambda>_. FloatError) sample_env sample_db (loan_sample (JInt 5000)))) = 200 \<and>
   auto_id sample_env = ''L1'' \<and>
   map_option status
     (loans (snd (loan_request (\<lambda>_. FloatError) sample_env sample_db (loan_sample (JInt 5000))))
        (''u2'', ''L1'')) = Some ''pending'' \<and>
   \<not> response_carries
       (fst (loan_request (\<lambda>_. FloatError) sample_env sample_db (loan_sample (JInt 5000)))) ''L1''"
  by (intro conjI; code_simp)

end
